theory Spec2Isabelle
  imports Complex_Main "HOL-Library.Char_ord" "HOL-Library.List_Lexorder"
    "HOL-Library.Product_Lexorder"
begin

section \<open>Evaluation measures of the sound event detection transformer\<close>

text \<open>
  A shallow embedding of \<^verbatim>\<open>evaluation_measures.py\<close>: the functions
  \<^verbatim>\<open>get_event_list_current_file\<close>, \<^verbatim>\<open>event_based_evaluation_df\<close>,
  \<^verbatim>\<open>segment_based_evaluation_df\<close>, \<^verbatim>\<open>psds_score\<close>, \<^verbatim>\<open>compute_sed_eval_metrics\<close>,
  \<^verbatim>\<open>format_df\<close>, \<^verbatim>\<open>intermediate_at_measures\<close>, \<^verbatim>\<open>macro_f_measure\<close>,
  \<^verbatim>\<open>audio_tagging_results\<close> and \<^verbatim>\<open>compute_metrics\<close>. The numpy arrays, the pandas
  tables and the metric libraries the module drives are modelled only as far as these
  functions use them; every such model says what it stands for.
\<close>

subsection \<open>Exceptions\<close>

datatype exn =
    KeyError string
  | AttributeError string
  | TypeError string
  | ValueError string
  | PSDSEvalError string
  | OtherError string

text \<open>Sequencing of computations that may raise: the first exception wins.\<close>

definition bind_exn :: "exn + 'a \<Rightarrow> ('a \<Rightarrow> exn + 'b) \<Rightarrow> exn + 'b" where
  "bind_exn m f = (case m of Inl e \<Rightarrow> Inl e | Inr v \<Rightarrow> f v)"

subsection \<open>numpy values\<close>

text \<open>
  An int64 value is kept as an integer of the range from \<open>-2^63\<close> to \<open>2^63 - 1\<close>. The
  arithmetic of int64 arrays wraps around silently: a result is reduced into this range.
\<close>

definition wrap64 :: "int \<Rightarrow> int" where
  "wrap64 x = (x + 2 ^ 63) mod 2 ^ 64 - 2 ^ 63"

definition add64 :: "int \<Rightarrow> int \<Rightarrow> int" where
  "add64 a b = wrap64 (a + b)"

definition mul64 :: "int \<Rightarrow> int \<Rightarrow> int" where
  "mul64 a b = wrap64 (a * b)"

text \<open>
  A float64 value: a finite value, kept as the rational number it is, or one of the three
  special values of IEEE arithmetic. The two zeros are not told apart.
\<close>

datatype npfloat = Finite rat | PosInf | NegInf | NaN

text \<open>The number of binary digits of a positive integer.\<close>

function bit_length :: "int \<Rightarrow> int" where
  "bit_length n = (if n \<le> 0 then 0 else 1 + bit_length (n div 2))"
  by pat_completeness auto
termination
  by (relation "measure nat") auto

definition pow2 :: "int \<Rightarrow> rat" where
  "pow2 e = (if 0 \<le> e then 2 ^ nat e else 1 / 2 ^ nat (- e))"

text \<open>The exponent \<open>e\<close> of a rational \<open>x\<close> other than zero: \<open>2^e \<le> |x| < 2^(e+1)\<close>.\<close>

definition binary_exponent :: "rat \<Rightarrow> int" where
  "binary_exponent x =
     (case quotient_of \<bar>x\<bar> of (p, q) \<Rightarrow>
        let e = bit_length p - bit_length q
        in if pow2 e \<le> \<bar>x\<bar> then e else e - 1)"

text \<open>Rounding to the nearest integer, a tie to the even one.\<close>

definition round_half_even :: "rat \<Rightarrow> int" where
  "round_half_even q =
     (let f = \<lfloor>q\<rfloor>; d = q - of_int f
      in if d < 1 / 2 then f else if 1 / 2 < d then f + 1 else if even f then f else f + 1)"

text \<open>
  The float64 nearest to a rational, as every float64 operation rounds its exact result:
  53 significant binary digits (fewer below \<open>2^-1022\<close>, where the spacing stays \<open>2^-1074\<close>),
  a tie to the even neighbour, an infinity when the rounded value reaches \<open>2^1024\<close> (the
  exponent is above 1023, or it is 1023 and the significand has rounded up to \<open>2^53\<close>).
\<close>

definition round_f64 :: "rat \<Rightarrow> npfloat" where
  "round_f64 x =
     (if x = 0 then Finite 0
      else
        let e = max (binary_exponent x) (- 1022);
            ulp = pow2 (e - 52);
            m = round_half_even (x / ulp)
        in if 1024 \<le> e \<or> (e = 1023 \<and> \<bar>m\<bar> = 2 ^ 53) then (if 0 < x then PosInf else NegInf)
           else Finite (of_int m * ulp))"

text \<open>
  Division of float64 values: NaN is kept, a zero divisor gives an infinity or, for
  \<open>0 / 0\<close>, NaN, and nothing raises.
\<close>

fun np_fdiv :: "npfloat \<Rightarrow> npfloat \<Rightarrow> npfloat" where
  "np_fdiv NaN _ = NaN"
| "np_fdiv _ NaN = NaN"
| "np_fdiv (Finite a) (Finite b) =
     (if b = 0 then (if a = 0 then NaN else if 0 < a then PosInf else NegInf)
      else round_f64 (a / b))"
| "np_fdiv (Finite a) _ = Finite 0"
| "np_fdiv PosInf (Finite b) = (if b < 0 then NegInf else PosInf)"
| "np_fdiv NegInf (Finite b) = (if b < 0 then PosInf else NegInf)"
| "np_fdiv _ _ = NaN"

text \<open>
  \<^verbatim>\<open>a / b\<close> on int64 arrays, elementwise (numpy's true division): both operands are
  converted to float64 and divided there.
\<close>

definition true_divide :: "int \<Rightarrow> int \<Rightarrow> npfloat" where
  "true_divide a b = np_fdiv (round_f64 (of_int a)) (round_f64 (of_int b))"

fun np_fadd :: "npfloat \<Rightarrow> npfloat \<Rightarrow> npfloat" where
  "np_fadd NaN _ = NaN"
| "np_fadd _ NaN = NaN"
| "np_fadd PosInf NegInf = NaN"
| "np_fadd NegInf PosInf = NaN"
| "np_fadd PosInf _ = PosInf"
| "np_fadd _ PosInf = PosInf"
| "np_fadd NegInf _ = NegInf"
| "np_fadd _ NegInf = NegInf"
| "np_fadd (Finite a) (Finite b) = round_f64 (a + b)"

text \<open>Division of a float by a count \<open>n\<close>, as the last step of a mean.\<close>

definition np_fdiv_nat :: "npfloat \<Rightarrow> nat \<Rightarrow> npfloat" where
  "np_fdiv_nat x n = np_fdiv x (round_f64 (of_nat n))"

text \<open>\<^verbatim>\<open>xs.mean()\<close> of a one-dimensional float array: the sum divided by the length.\<close>

definition np_mean :: "npfloat list \<Rightarrow> npfloat" where
  "np_mean xs = np_fdiv_nat (foldl np_fadd (Finite 0) xs) (length xs)"

text \<open>
  A two-dimensional array: its number of columns and its rows (the number of columns is
  kept apart because an array may have no row). The array is well formed when every row has
  \<open>ncols\<close> entries.
\<close>

datatype 'a ndarray2 = Array2 (ncols: nat) (arows: "'a list list")

definition wf_array :: "'a ndarray2 \<Rightarrow> bool" where
  "wf_array a = list_all (\<lambda>r. length r = ncols a) (arows a)"

definition same_shape :: "'a ndarray2 \<Rightarrow> 'b ndarray2 \<Rightarrow> bool" where
  "same_shape a b = (ncols a = ncols b \<and> length (arows a) = length (arows b))"

definition binary_array :: "int ndarray2 \<Rightarrow> bool" where
  "binary_array a = list_all (list_all (\<lambda>x. x = 0 \<or> x = 1)) (arows a)"

text \<open>
  Elementwise \<^verbatim>\<open>a + b\<close> and \<^verbatim>\<open>a - b\<close> of two arrays of the same shape (broadcasting between
  different shapes is not modelled: the callers pass arrays of one shape).
\<close>

definition np_add :: "int ndarray2 \<Rightarrow> int ndarray2 \<Rightarrow> int ndarray2" where
  "np_add a b = Array2 (ncols a) (map2 (map2 (+)) (arows a) (arows b))"

definition np_sub :: "int ndarray2 \<Rightarrow> int ndarray2 \<Rightarrow> int ndarray2" where
  "np_sub a b = Array2 (ncols a) (map2 (map2 (-)) (arows a) (arows b))"

text \<open>\<^verbatim>\<open>a == k\<close> for a scalar \<open>k\<close>: the boolean array of the same shape.\<close>

definition np_eq_scalar :: "int ndarray2 \<Rightarrow> int \<Rightarrow> bool ndarray2" where
  "np_eq_scalar a k = Array2 (ncols a) (map (map (\<lambda>x. x = k)) (arows a))"

text \<open>\<^verbatim>\<open>a.sum(axis=0)\<close> of a boolean array: for every column, the number of true entries.\<close>

definition sum_axis0 :: "bool ndarray2 \<Rightarrow> int list" where
  "sum_axis0 a = map (\<lambda>j. sum_list (map (\<lambda>r. if r ! j then 1 else 0) (arows a))) [0..<ncols a]"

subsection \<open>Confusion counts and the F-measure\<close>

definition intermediate_at_measures ::
  "int ndarray2 \<Rightarrow> int ndarray2 \<Rightarrow> int list \<times> int list \<times> int list \<times> int list" where
  "intermediate_at_measures encoded_ref encoded_est =
     (let tp = sum_axis0 (np_eq_scalar (np_add encoded_est encoded_ref) 2);
          fp = sum_axis0 (np_eq_scalar (np_sub encoded_est encoded_ref) 1);
          fn = sum_axis0 (np_eq_scalar (np_sub encoded_ref encoded_est) 1);
          tn = sum_axis0 (np_eq_scalar (np_add encoded_est encoded_ref) 0)
      in (tp, fp, fn, tn))"

text \<open>\<^verbatim>\<open>xs[mask]\<close>: the entries of \<open>xs\<close> at the true positions of the mask, in order.\<close>

definition np_compress :: "bool list \<Rightarrow> 'a list \<Rightarrow> 'a list" where
  "np_compress msk xs = map snd (filter fst (zip msk xs))"

text \<open>
  \<^verbatim>\<open>xs[mask] = vals\<close>: the true positions of the mask receive the values in order, the
  other positions keep theirs.
\<close>

fun np_putmask :: "'a list \<Rightarrow> bool list \<Rightarrow> 'a list \<Rightarrow> 'a list" where
  "np_putmask (x # xs) (True # ms) (v # vs) = v # np_putmask xs ms vs"
| "np_putmask (x # xs) (False # ms) vs = x # np_putmask xs ms vs"
| "np_putmask xs _ _ = xs"

text \<open>\<^verbatim>\<open>2 * tp + fp + fn\<close> on int64 arrays.\<close>

definition f_denominator :: "int list \<Rightarrow> int list \<Rightarrow> int list \<Rightarrow> int list" where
  "f_denominator tp fp fn = map2 add64 (map2 add64 (map (mul64 2) tp) fp) fn"

definition macro_f_measure :: "int list \<Rightarrow> int list \<Rightarrow> int list \<Rightarrow> npfloat list" where
  "macro_f_measure tp fp fn =
     (let macro_f_score = replicate (length tp) (Finite 0);
          mask_f_score = map (\<lambda>d. d \<noteq> 0) (f_denominator tp fp fn)
      in np_putmask macro_f_score mask_f_score
           (map2 true_divide (map (mul64 2) (np_compress mask_f_score tp))
                             (np_compress mask_f_score (f_denominator tp fp fn))))"

subsection \<open>pandas tables\<close>

text \<open>
  A cell of a table: a missing value (NaN or None), a string, a number, or a numpy vector
  (the many-hot encoding of a set of labels, with entries kept as integers).
\<close>

datatype cell = NA | Str string | Num rat | Vec "int list"

text \<open>
  A DataFrame: its column names and its rows, every row listing its cells in the order of
  the columns. A cell a row does not have reads as missing.
\<close>

record frame =
  columns :: "string list"
  rows :: "cell list list"

definition cell_of :: "string list \<Rightarrow> cell list \<Rightarrow> string \<Rightarrow> cell" where
  "cell_of cols r name = (case map_of (zip cols r) name of Some c \<Rightarrow> c | None \<Rightarrow> NA)"

text \<open>\<^verbatim>\<open>df[name]\<close> raises KeyError and \<^verbatim>\<open>df.name\<close> raises AttributeError on a missing column.\<close>

definition get_item :: "frame \<Rightarrow> string \<Rightarrow> exn + cell list" where
  "get_item df name =
     (if name \<in> set (columns df) then Inr (map (\<lambda>r. cell_of (columns df) r name) (rows df))
      else Inl (KeyError name))"

definition get_attr :: "frame \<Rightarrow> string \<Rightarrow> exn + cell list" where
  "get_attr df name =
     (if name \<in> set (columns df) then Inr (map (\<lambda>r. cell_of (columns df) r name) (rows df))
      else Inl (AttributeError name))"

text \<open>\<^verbatim>\<open>series == value\<close>, for one cell: a missing value equals nothing, not even itself.\<close>

definition cell_eq :: "cell \<Rightarrow> cell \<Rightarrow> bool" where
  "cell_eq a b = (a \<noteq> NA \<and> a = b)"

text \<open>\<^verbatim>\<open>df[mask]\<close>: the rows at the true positions of a boolean series.\<close>

definition select_rows :: "frame \<Rightarrow> bool list \<Rightarrow> frame" where
  "select_rows df msk = df\<lparr>rows := np_compress msk (rows df)\<rparr>"

text \<open>\<^verbatim>\<open>df.empty\<close>: an axis of the table has length zero.\<close>

definition df_empty :: "frame \<Rightarrow> bool" where
  "df_empty df = (rows df = [] \<or> columns df = [])"

text \<open>A dictionary with string keys, as \<^verbatim>\<open>to_dict('records')\<close> builds one per row.\<close>

type_synonym pydict = "(string \<times> cell) list"

definition to_dict_records :: "frame \<Rightarrow> pydict list" where
  "to_dict_records df = map (zip (columns df)) (rows df)"

text \<open>\<^verbatim>\<open>unique()\<close>: the distinct values in the order of their first appearance.\<close>

definition unique :: "'a list \<Rightarrow> 'a list" where
  "unique xs = rev (remdups (rev xs))"

definition dropna :: "cell list \<Rightarrow> cell list" where
  "dropna xs = filter (\<lambda>c. c \<noteq> NA) xs"

text \<open>
  \<^verbatim>\<open>list(set(xs))\<close>: the distinct values. Python leaves the order of a set open; the model
  lists them in the order of their first appearance.
\<close>

definition list_of_set :: "'a list \<Rightarrow> 'a list" where
  "list_of_set xs = unique xs"

text \<open>
  The truth value of \<^verbatim>\<open>pd.isna(v)\<close> in a condition. For a numpy vector \<^verbatim>\<open>pd.isna\<close> answers
  elementwise (no entry of a vector of integers is missing), and the truth value of an array
  of more than one element raises ValueError.
\<close>

fun isna_truth :: "cell \<Rightarrow> exn + bool" where
  "isna_truth NA = Inr True"
| "isna_truth (Vec v) =
     (if length v \<le> 1 then Inr False else Inl (ValueError ''truth value of an array is ambiguous''))"
| "isna_truth _ = Inr False"

subsection \<open>Event lists of one file\<close>

definition get_event_list_current_file :: "frame \<Rightarrow> cell \<Rightarrow> exn + pydict list" where
  "get_event_list_current_file df fname =
     bind_exn (get_item df ''filename'') (\<lambda>names.
       let event_file = select_rows df (map (\<lambda>c. cell_eq c fname) names) in
       if length (rows event_file) = 1 then
         bind_exn (get_item event_file ''event_label'') (\<lambda>labels.
           case labels of
             [] \<Rightarrow> Inl (OtherError ''IndexError'')
           | l # _ \<Rightarrow>
               bind_exn (isna_truth l) (\<lambda>missing.
                 if missing then Inr [[(''filename'', fname)]]
                 else Inr (to_dict_records event_file)))
       else Inr (to_dict_records event_file))"

subsection \<open>Event based and segment based evaluation\<close>

text \<open>
  The \<^verbatim>\<open>sed_eval\<close> library is outside the module. Its two metric classes are parameters:
  the constructors with the arguments the module passes, the \<^verbatim>\<open>evaluate\<close> methods (which
  update the metric object and may raise) and \<^verbatim>\<open>results_class_wise_average_metrics\<close>,
  read at \<^verbatim>\<open>['f_measure']\<close> as the triple of f_measure, precision and recall.
\<close>

record ('e, 's) sed_eval =
  event_based_metrics :: "cell list \<Rightarrow> rat \<Rightarrow> rat \<Rightarrow> string \<Rightarrow> 'e"
  event_evaluate :: "'e \<Rightarrow> pydict list \<Rightarrow> pydict list \<Rightarrow> exn + 'e"
  event_class_wise_average :: "'e \<Rightarrow> npfloat \<times> npfloat \<times> npfloat"
  segment_based_metrics :: "cell list \<Rightarrow> rat \<Rightarrow> 's"
  segment_evaluate :: "'s \<Rightarrow> pydict list \<Rightarrow> pydict list \<Rightarrow> exn + 's"
  segment_class_wise_average :: "'s \<Rightarrow> npfloat \<times> npfloat \<times> npfloat"

text \<open>The loop over the evaluated files, the same in both functions.\<close>

fun evaluate_files ::
  "('m \<Rightarrow> pydict list \<Rightarrow> pydict list \<Rightarrow> exn + 'm) \<Rightarrow> frame \<Rightarrow> frame \<Rightarrow> cell list \<Rightarrow> 'm \<Rightarrow> exn + 'm" where
  "evaluate_files ev reference estimated [] metric = Inr metric"
| "evaluate_files ev reference estimated (fname # fnames) metric =
     bind_exn (get_event_list_current_file reference fname) (\<lambda>reference_event_list.
     bind_exn (get_event_list_current_file estimated fname) (\<lambda>estimated_event_list.
     bind_exn (ev metric reference_event_list estimated_event_list) (\<lambda>metric'.
       evaluate_files ev reference estimated fnames metric')))"

text \<open>
  The class list built from the labels of the two tables, by the same statements in
  \<^verbatim>\<open>event_based_evaluation_df\<close>, \<^verbatim>\<open>segment_based_evaluation_df\<close> and
  \<^verbatim>\<open>audio_tagging_results\<close>.
\<close>

definition event_classes :: "frame \<Rightarrow> frame \<Rightarrow> exn + cell list" where
  "event_classes reference estimated =
     bind_exn (get_attr reference ''event_label'') (\<lambda>ref_labels.
     bind_exn (get_attr estimated ''event_label'') (\<lambda>est_labels.
       Inr (list_of_set (unique (dropna ref_labels) @ unique (dropna est_labels)))))"

definition event_based_evaluation_df ::
  "('e, 's) sed_eval \<Rightarrow> frame \<Rightarrow> frame \<Rightarrow> rat \<Rightarrow> rat \<Rightarrow> exn + 'e" where
  "event_based_evaluation_df lib reference estimated t_collar percentage_of_length =
     bind_exn (get_item reference ''filename'') (\<lambda>names.
       let evaluated_files = unique names in
       bind_exn (event_classes reference estimated) (\<lambda>classes.
         let event_based_metric =
               event_based_metrics lib classes t_collar percentage_of_length ''zero_score''
         in evaluate_files (event_evaluate lib) reference estimated evaluated_files
              event_based_metric))"

definition segment_based_evaluation_df ::
  "('e, 's) sed_eval \<Rightarrow> frame \<Rightarrow> frame \<Rightarrow> rat \<Rightarrow> exn + 's" where
  "segment_based_evaluation_df lib reference estimated time_resolution =
     bind_exn (get_item reference ''filename'') (\<lambda>names.
       let evaluated_files = unique names in
       bind_exn (event_classes reference estimated) (\<lambda>classes.
         let segment_based_metric = segment_based_metrics lib classes time_resolution
         in evaluate_files (segment_evaluate lib) reference estimated evaluated_files
              segment_based_metric))"

text \<open>
  A metric object that only records what is submitted to it: the list of the pairs of
  event lists passed to \<^verbatim>\<open>evaluate\<close>, in the order of the calls.
\<close>

type_synonym submissions = "(pydict list \<times> pydict list) list"

definition recording_lib :: "(submissions, submissions) sed_eval" where
  "recording_lib =
     \<lparr> event_based_metrics = (\<lambda>classes t_collar percentage_of_length handling. []),
       event_evaluate = (\<lambda>m r e. Inr (m @ [(r, e)])),
       event_class_wise_average = (\<lambda>m. (NaN, NaN, NaN)),
       segment_based_metrics = (\<lambda>classes time_resolution. []),
       segment_evaluate = (\<lambda>m r e. Inr (m @ [(r, e)])),
       segment_class_wise_average = (\<lambda>m. (NaN, NaN, NaN)) \<rparr>"

text \<open>Feeding a list of submissions to a metric object, one \<^verbatim>\<open>evaluate\<close> call each.\<close>

fun submit_all ::
  "('m \<Rightarrow> pydict list \<Rightarrow> pydict list \<Rightarrow> exn + 'm) \<Rightarrow> submissions \<Rightarrow> 'm \<Rightarrow> exn + 'm" where
  "submit_all ev [] metric = Inr metric"
| "submit_all ev ((r, e) # subs) metric = bind_exn (ev metric r e) (submit_all ev subs)"

subsection \<open>The PSDS scores\<close>

text \<open>
  What \<^verbatim>\<open>psds_score\<close> touches outside the module: the \<^verbatim>\<open>psds\<close> method of the evaluator
  (it may raise), the formatting of a score's value with five decimals, the path functions
  of \<^verbatim>\<open>os.path\<close>, \<^verbatim>\<open>os.makedirs\<close> and \<^verbatim>\<open>plot_psd_roc\<close>.
\<close>

record 'sc psds_env =
  psds_query :: "int \<Rightarrow> int \<Rightarrow> int \<Rightarrow> exn + 'sc"
  format_value :: "'sc \<Rightarrow> string"
  path_dirname :: "string \<Rightarrow> string"
  path_splitext :: "string \<Rightarrow> string \<times> string"
  os_makedirs :: "string \<Rightarrow> exn + unit"
  plot_psd_roc :: "'sc \<Rightarrow> string \<Rightarrow> exn + unit"

text \<open>The visible effects of a run, in the order they happen.\<close>

datatype 'sc effect =
    Queried int int int
  | LoggedInfo string
  | LoggedError string
  | MadeDirs string
  | Plotted 'sc string

type_synonym ('sc, 'a) io = "'sc effect list \<Rightarrow> (exn + 'a) \<times> 'sc effect list"

definition return_io :: "'a \<Rightarrow> ('sc, 'a) io" where
  "return_io v = (\<lambda>tr. (Inr v, tr))"

definition bind_io :: "('sc, 'a) io \<Rightarrow> ('a \<Rightarrow> ('sc, 'b) io) \<Rightarrow> ('sc, 'b) io" where
  "bind_io m f = (\<lambda>tr. case m tr of (Inl e, tr') \<Rightarrow> (Inl e, tr') | (Inr v, tr') \<Rightarrow> f v tr')"

definition query :: "'sc psds_env \<Rightarrow> int \<Rightarrow> int \<Rightarrow> int \<Rightarrow> ('sc, 'sc) io" where
  "query env alpha_ct alpha_st max_efpr =
     (\<lambda>tr. (psds_query env alpha_ct alpha_st max_efpr, tr @ [Queried alpha_ct alpha_st max_efpr]))"

definition log_info :: "string \<Rightarrow> ('sc, unit) io" where
  "log_info msg = (\<lambda>tr. (Inr (), tr @ [LoggedInfo msg]))"

definition log_error :: "string \<Rightarrow> ('sc, unit) io" where
  "log_error msg = (\<lambda>tr. (Inr (), tr @ [LoggedError msg]))"

definition make_dirs :: "'sc psds_env \<Rightarrow> string \<Rightarrow> ('sc, unit) io" where
  "make_dirs env d = (\<lambda>tr. (os_makedirs env d, tr @ [MadeDirs d]))"

definition plot :: "'sc psds_env \<Rightarrow> 'sc \<Rightarrow> string \<Rightarrow> ('sc, unit) io" where
  "plot env sc filename = (\<lambda>tr. (plot_psd_roc env sc filename, tr @ [Plotted sc filename]))"

text \<open>The block under \<^verbatim>\<open>if filename_roc_curves is not None\<close>, with the three scores.\<close>

definition plot_roc_curves ::
  "'sc psds_env \<Rightarrow> 'sc \<Rightarrow> 'sc \<Rightarrow> 'sc \<Rightarrow> string option \<Rightarrow> ('sc, unit) io" where
  "plot_roc_curves env psds_score psds_ct_score psds_macro_score filename_roc_curves =
     (case filename_roc_curves of
        None \<Rightarrow> return_io ()
      | Some f \<Rightarrow>
          bind_io (if path_dirname env f \<noteq> [] then make_dirs env (path_dirname env f)
                   else return_io ()) (\<lambda>_.
          (case path_splitext env f of (base, ext) \<Rightarrow>
            bind_io (plot env psds_score (base @ ''_0_0_100'' @ ext)) (\<lambda>_.
            bind_io (plot env psds_ct_score (base @ ''_1_0_100'' @ ext)) (\<lambda>_.
              plot env psds_macro_score (base @ ''_0_1_100'' @ ext))))))"

text \<open>The body of the \<^verbatim>\<open>try\<close> block.\<close>

definition psds_score_body :: "'sc psds_env \<Rightarrow> string option \<Rightarrow> ('sc, unit) io" where
  "psds_score_body env filename_roc_curves =
     bind_io (query env 0 0 100) (\<lambda>psds_score.
     bind_io (log_info (CHR 0x0A # ''PSD-Score (0, 0, 100): '' @ format_value env psds_score)) (\<lambda>_.
     bind_io (query env 1 0 100) (\<lambda>psds_ct_score.
     bind_io (log_info (CHR 0x0A # ''PSD-Score (1, 0, 100): '' @ format_value env psds_ct_score)) (\<lambda>_.
     bind_io (query env 0 1 100) (\<lambda>psds_macro_score.
     bind_io (log_info (CHR 0x0A # ''PSD-Score (0, 1, 100): '' @ format_value env psds_macro_score)) (\<lambda>_.
       plot_roc_curves env psds_score psds_ct_score psds_macro_score filename_roc_curves))))))"

text \<open>\<^verbatim>\<open>try: ... except PSDSEvalError as e:\<close> with the two error log lines of the handler.\<close>

definition psds_score :: "'sc psds_env \<Rightarrow> string option \<Rightarrow> ('sc, unit) io" where
  "psds_score env filename_roc_curves =
     (\<lambda>tr. case psds_score_body env filename_roc_curves tr of
        (Inl (PSDSEvalError e), tr') \<Rightarrow>
          bind_io (log_error ''psds score did not work ....'') (\<lambda>_. log_error e) tr'
      | res \<Rightarrow> res)"

text \<open>The evaluator queries and the error log lines among the effects of a run.\<close>

definition queries_of :: "'sc effect list \<Rightarrow> (int \<times> int \<times> int) list" where
  "queries_of tr = concat (map (\<lambda>e. case e of Queried a b c \<Rightarrow> [(a, b, c)] | _ \<Rightarrow> []) tr)"

definition error_logs_of :: "'sc effect list \<Rightarrow> string list" where
  "error_logs_of tr = concat (map (\<lambda>e. case e of LoggedError m \<Rightarrow> [m] | _ \<Rightarrow> []) tr)"

subsection \<open>Weak labels\<close>

text \<open>
  The many-hot encoder object, as far as the module uses it: its label list and its
  \<^verbatim>\<open>encode_weak\<close> method.
\<close>

record many_hot_encoder =
  labels :: "cell list"
  encode_weak :: "cell list \<Rightarrow> exn + cell"

text \<open>
  Modelled from the spec: the class \<^verbatim>\<open>ManyHotEncoder\<close> of \<^verbatim>\<open>utilities.FrameEncoder\<close> is
  not part of the sources at hand. The glossary describes the encoding as a fixed-length
  vector over the label vocabulary with 1 at each present label's index; \<open>many_hot\<close> is that
  vector, and the labels of the encoder are the classes it is built from.
\<close>

definition many_hot :: "cell list \<Rightarrow> cell list \<Rightarrow> int list" where
  "many_hot classes present = map (\<lambda>c. if c \<in> set present then 1 else 0) classes"

definition ManyHotEncoder :: "cell list \<Rightarrow> many_hot_encoder" where
  "ManyHotEncoder classes =
     \<lparr> labels = classes, encode_weak = (\<lambda>present. Inr (Vec (many_hot classes present))) \<rparr>"

fun map_exn :: "('a \<Rightarrow> exn + 'b) \<Rightarrow> 'a list \<Rightarrow> exn + 'b list" where
  "map_exn f [] = Inr []"
| "map_exn f (x # xs) = bind_exn (f x) (\<lambda>y. bind_exn (map_exn f xs) (\<lambda>ys. Inr (y # ys)))"

text \<open>
  The keys of a grouping or of a join, distinct and in ascending order: the strings in the
  order of their characters, a missing key after them. Filenames are strings; a key of
  another kind is ranked as the empty string.
\<close>

fun filename_key :: "cell \<Rightarrow> bool \<times> string" where
  "filename_key (Str s) = (False, s)"
| "filename_key NA = (True, [])"
| "filename_key _ = (False, [])"

definition sorted_keys :: "cell list \<Rightarrow> cell list" where
  "sorted_keys ks = sort_key filename_key (unique ks)"

text \<open>The inner function of \<^verbatim>\<open>format_df\<close>: the row of one group.\<close>

definition join_labels :: "many_hot_encoder \<Rightarrow> frame \<Rightarrow> exn + cell list" where
  "join_labels mhe x =
     bind_exn (get_item x ''filename'') (\<lambda>names.
       case names of
         [] \<Rightarrow> Inl (OtherError ''IndexError'')
       | n # _ \<Rightarrow>
           bind_exn (get_item x ''event_label'') (\<lambda>event_labels.
           bind_exn (encode_weak mhe (dropna (unique event_labels))) (\<lambda>v. Inr [n, v])))"

text \<open>
  \<^verbatim>\<open>df.groupby("filename", as_index=False).apply(join_labels)\<close>: one group per filename
  that is not missing, the groups in ascending order of the filename. Without any group
  pandas gives an empty table (its columns depend on the version of pandas; the model keeps
  the columns of \<open>df\<close>).
\<close>

definition groupby_filename_apply :: "many_hot_encoder \<Rightarrow> frame \<Rightarrow> exn + frame" where
  "groupby_filename_apply mhe df =
     bind_exn (get_item df ''filename'') (\<lambda>names.
       let keys = sorted_keys (dropna names) in
       if keys = [] then Inr (df\<lparr>rows := []\<rparr>)
       else
         bind_exn (map_exn (\<lambda>k. join_labels mhe (select_rows df (map (\<lambda>c. c = k) names))) keys)
           (\<lambda>rs. Inr \<lparr>columns = [''filename'', ''event_label''], rows = rs\<rparr>))"

definition format_df :: "frame \<Rightarrow> many_hot_encoder \<Rightarrow> exn + frame" where
  "format_df df mhe =
     (if ''onset'' \<in> set (columns df) \<or> ''offset'' \<in> set (columns df)
      then groupby_filename_apply mhe df
      else Inr df)"

subsection \<open>Audio tagging results\<close>

text \<open>
  \<^verbatim>\<open>left.merge(right, how='outer', on=key, suffixes=[ls, rs])\<close>. The columns are those of
  the left table, then those of the right table but the key; a name the two sides share
  (the key apart) takes the side's suffix. The rows run through the keys of both tables in
  ascending order: every pairing of a left row and a right row of that key, and where one
  side has no row of that key, the rows of the other side with the missing side's cells
  left missing. Missing keys match each other.
\<close>

definition merge_outer :: "frame \<Rightarrow> frame \<Rightarrow> string \<Rightarrow> string \<Rightarrow> string \<Rightarrow> exn + frame" where
  "merge_outer left right on lsuffix rsuffix =
     bind_exn (get_item left on) (\<lambda>lkeys.
     bind_exn (get_item right on) (\<lambda>rkeys.
       let lothers = filter (\<lambda>c. c \<noteq> on) (columns left);
           rothers = filter (\<lambda>c. c \<noteq> on) (columns right);
           lname = (\<lambda>c. if c \<noteq> on \<and> c \<in> set rothers then c @ lsuffix else c);
           rname = (\<lambda>c. if c \<in> set lothers then c @ rsuffix else c);
           lcells = (\<lambda>l. map (cell_of (columns left) l) (columns left));
           rcells = (\<lambda>r. map (cell_of (columns right) r) rothers);
           lmissing = (\<lambda>k. map (\<lambda>c. if c = on then k else NA) (columns left));
           rmissing = map (\<lambda>c. NA) rothers;
           rows_of_key = (\<lambda>k.
             let ls = filter (\<lambda>l. cell_of (columns left) l on = k) (rows left);
                 rs = filter (\<lambda>r. cell_of (columns right) r on = k) (rows right)
             in if rs = [] then map (\<lambda>l. lcells l @ rmissing) ls
                else if ls = [] then map (\<lambda>r. lmissing k @ rcells r) rs
                else concat (map (\<lambda>l. map (\<lambda>r. lcells l @ rcells r) rs) ls))
       in Inr \<lparr>columns = map lname (columns left) @ map rname rothers,
               rows = concat (map rows_of_key (sorted_keys (lkeys @ rkeys)))\<rparr>))"

text \<open>The inner function \<^verbatim>\<open>na_values\<close>; \<open>classes\<close> is the variable it reads from outside.\<close>

fun na_values :: "cell list \<Rightarrow> cell \<Rightarrow> cell" where
  "na_values classes (Vec v) = Vec v"
| "na_values classes NA = Vec (replicate (length classes) 0)"
| "na_values classes val = val"

text \<open>
  \<^verbatim>\<open>np.array(series.tolist())\<close> as the measures need it: a list of vectors of one length
  is a two-dimensional array. Any other list gives no such array and the arithmetic of the
  measures on it fails; an empty list gives a one-dimensional array, on which
  \<^verbatim>\<open>tp.shape[-1]\<close> fails.
\<close>

fun vector_of :: "cell \<Rightarrow> int list" where
  "vector_of (Vec v) = v"
| "vector_of _ = []"

fun is_vector :: "cell \<Rightarrow> bool" where
  "is_vector (Vec v) = True"
| "is_vector _ = False"

definition np_array :: "cell list \<Rightarrow> exn + int ndarray2" where
  "np_array cs =
     (case cs of
        [] \<Rightarrow> Inl (OtherError ''IndexError'')
      | c # _ \<Rightarrow>
          if list_all (\<lambda>d. is_vector d \<and> length (vector_of d) = length (vector_of c)) cs
          then Inr (Array2 (length (vector_of c)) (map vector_of cs))
          else Inl (TypeError ''unsupported operand''))"

text \<open>\<^verbatim>\<open>s.split(',')\<close> of a string.\<close>

fun split_on :: "char \<Rightarrow> string \<Rightarrow> string list" where
  "split_on sep [] = [[]]"
| "split_on sep (c # cs) =
     (if c = sep then [] # split_on sep cs
      else (case split_on sep cs of [] \<Rightarrow> [[c]] | p # ps \<Rightarrow> (c # p) # ps))"

text \<open>
  \<^verbatim>\<open>series.str.split(',', expand=True).unstack().dropna().unique()\<close>: the pieces of the
  strings, the first pieces of all rows before the second pieces, and so on. A cell that is
  not a string has no piece.
\<close>

definition split_labels :: "cell list \<Rightarrow> cell list" where
  "split_labels cs =
     unique (concat (transpose
       (map (\<lambda>c. case c of Str s \<Rightarrow> map Str (split_on CHR '','' s) | _ \<Rightarrow> []) cs)))"

text \<open>
  The first part of \<^verbatim>\<open>audio_tagging_results\<close>: the classes, the encoder and the two tables
  as they stand before the join.
\<close>

definition audio_tagging_prepare ::
  "frame \<Rightarrow> frame \<Rightarrow> exn + (cell list \<times> many_hot_encoder \<times> frame \<times> frame)" where
  "audio_tagging_prepare reference estimated =
     (if ''event_label'' \<in> set (columns reference) then
        bind_exn (event_classes reference estimated) (\<lambda>classes.
          let mhe = ManyHotEncoder classes in
          bind_exn (format_df reference mhe) (\<lambda>reference'.
          bind_exn (format_df estimated mhe) (\<lambda>estimated'.
            Inr (classes, mhe, reference', estimated'))))
      else
        bind_exn (get_attr reference ''event_labels'') (\<lambda>ref_labels.
        bind_exn (get_attr estimated ''event_labels'') (\<lambda>est_labels.
          let classes = list_of_set (split_labels ref_labels @ split_labels est_labels)
          in Inr (classes, ManyHotEncoder classes, reference, estimated))))"

text \<open>
  The two encoded arrays read from the joined table, missing cells replaced by
  \<^verbatim>\<open>na_values\<close>. Arrays of different widths cannot be added.
\<close>

definition encoded_arrays :: "cell list \<Rightarrow> frame \<Rightarrow> exn + (int ndarray2 \<times> int ndarray2)" where
  "encoded_arrays classes matching =
     bind_exn (get_attr matching ''event_label_pred'') (\<lambda>event_label_pred.
     bind_exn (get_attr matching ''event_label_ref'') (\<lambda>event_label_ref.
     bind_exn (np_array (map (na_values classes) event_label_ref)) (\<lambda>encoded_ref.
     bind_exn (np_array (map (na_values classes) event_label_pred)) (\<lambda>encoded_est.
       if ncols encoded_ref = ncols encoded_est then Inr (encoded_ref, encoded_est)
       else Inl (ValueError ''operands could not be broadcast together'')))))"

text \<open>
  The three columns of scores: the F-measure, the precision and the recall of every class.
\<close>

definition class_scores ::
  "int ndarray2 \<Rightarrow> int ndarray2 \<Rightarrow> npfloat list \<times> npfloat list \<times> npfloat list" where
  "class_scores encoded_ref encoded_est =
     (case intermediate_at_measures encoded_ref encoded_est of (tp, fp, fn, tn) \<Rightarrow>
        let macro_f = macro_f_measure tp fp fn;
            macro_p = map2 true_divide tp (map2 add64 tp fp);
            macro_r = map2 true_divide tp (map2 add64 tp fn)
        in (macro_f, macro_p, macro_r))"

text \<open>
  The table returned: one row of \<open>f\<close>, \<open>p\<close> and \<open>r\<close> per label of the encoder, and the row
  \<open>avg\<close> of the means of the three columns.
\<close>

type_synonym results_table = "(cell \<times> npfloat \<times> npfloat \<times> npfloat) list"

definition results_serie ::
  "cell list \<Rightarrow> npfloat list \<Rightarrow> npfloat list \<Rightarrow> npfloat list \<Rightarrow> results_table" where
  "results_serie index macro_f macro_p macro_r =
     zip index (zip macro_f (zip macro_p macro_r))
       @ [(Str ''avg'', np_mean macro_f, np_mean macro_p, np_mean macro_r)]"

definition audio_tagging_results :: "frame \<Rightarrow> frame \<Rightarrow> exn + results_table" where
  "audio_tagging_results reference estimated =
     bind_exn (audio_tagging_prepare reference estimated) (\<lambda>(classes, mhe, reference', estimated').
     bind_exn (merge_outer reference' estimated' ''filename'' ''_ref'' ''_pred'') (\<lambda>matching.
     bind_exn
       (if \<not> df_empty estimated' then
          bind_exn (encoded_arrays classes matching) (\<lambda>(encoded_ref, encoded_est).
            Inr (class_scores encoded_ref encoded_est))
        else
          Inr (replicate (length classes) (Finite 0), replicate (length classes) (Finite 0),
               replicate (length classes) (Finite 0)))
       (\<lambda>(macro_f, macro_p, macro_r).
          if length macro_f = length (labels mhe)
          then Inr (results_serie (labels mhe) macro_f macro_p macro_r)
          else Inl (ValueError ''Shape of passed values''))))"

subsection \<open>The report\<close>

text \<open>The printing of the metrics is not modelled.\<close>

definition compute_sed_eval_metrics ::
  "('e, 's) sed_eval \<Rightarrow> frame \<Rightarrow> frame \<Rightarrow> bool \<Rightarrow> bool \<Rightarrow> exn + ('e \<times> 's option)" where
  "compute_sed_eval_metrics lib predictions groundtruth report cal_seg =
     bind_exn (event_based_evaluation_df lib groundtruth predictions (1 / 5) (1 / 5)) (\<lambda>metric_event.
       if cal_seg then
         bind_exn (segment_based_evaluation_df lib groundtruth predictions 1) (\<lambda>metric_segment.
           Inr (metric_event, Some metric_segment))
       else Inr (metric_event, None))"

text \<open>A value returned by \<^verbatim>\<open>compute_metrics\<close>.\<close>

datatype pyval = PyInt int | PyFloat npfloat | PySeries "npfloat list" | PyNone

text \<open>\<^verbatim>\<open>clip_metric.loc['avg', 'f']\<close>: a scalar when one row is labelled \<open>avg\<close>.\<close>

definition loc_avg_f :: "results_table \<Rightarrow> pyval" where
  "loc_avg_f t =
     (case filter (\<lambda>row. fst row = Str ''avg'') t of
        [row] \<Rightarrow> PyFloat (fst (snd row))
      | found \<Rightarrow> PySeries (map (\<lambda>row. fst (snd row)) found))"

definition compute_metrics ::
  "('e, 's) sed_eval \<Rightarrow> frame \<Rightarrow> frame \<Rightarrow> frame option \<Rightarrow> bool \<Rightarrow> bool
     \<Rightarrow> exn + (pyval \<times> pyval \<times> pyval)" where
  "compute_metrics lib predictions gtruth_df meta_df cal_seg cal_clip =
     (if df_empty predictions then Inr (PyInt 0, PyInt 0, PyInt 0)
      else
        bind_exn (compute_sed_eval_metrics lib predictions gtruth_df True cal_seg)
          (\<lambda>(events_metric, segments_metric).
            case event_class_wise_average lib events_metric of
              (events_macro_f1, events_macro_p, events_macro_r) \<Rightarrow>
            bind_exn
              (if cal_clip then
                 bind_exn (audio_tagging_results gtruth_df predictions) (\<lambda>clip_metric.
                   Inr (loc_avg_f clip_metric))
               else Inr PyNone)
              (\<lambda>clip_macro_f1.
                 case segments_metric of
                   None \<Rightarrow> Inr (PyFloat events_macro_f1, PyFloat events_macro_p, clip_macro_f1)
                 | Some sm \<Rightarrow>
                     (if clip_macro_f1 = PyNone
                      then Inl (TypeError ''unsupported operand type(s) for *'')
                      else Inr (PyFloat events_macro_f1, PyFloat events_macro_p, clip_macro_f1)))))"

subsection \<open>Notions the properties are stated with\<close>

text \<open>
  The number of rows at which the entries of column \<open>j\<close> of the reference and of the
  estimate satisfy \<open>P\<close>.
\<close>

definition rows_where :: "(int \<Rightarrow> int \<Rightarrow> bool) \<Rightarrow> int ndarray2 \<Rightarrow> int ndarray2 \<Rightarrow> nat \<Rightarrow> int" where
  "rows_where P ref est j =
     int (length (filter (\<lambda>(r, e). P (r ! j) (e ! j)) (zip (arows ref) (arows est))))"

text \<open>The cells of the filename column and the rows of a table that belong to a file.\<close>

definition filename_column :: "frame \<Rightarrow> cell list" where
  "filename_column df = map (\<lambda>r. cell_of (columns df) r ''filename'') (rows df)"

definition file_rows :: "frame \<Rightarrow> cell \<Rightarrow> cell list list" where
  "file_rows df fname =
     filter (\<lambda>r. cell_eq (cell_of (columns df) r ''filename'') fname) (rows df)"

text \<open>
  A table of events: it has the columns \<open>filename\<close> and \<open>event_label\<close>, and its labels are
  strings or missing.
\<close>

definition event_table :: "frame \<Rightarrow> bool" where
  "event_table df =
     (''filename'' \<in> set (columns df) \<and> ''event_label'' \<in> set (columns df) \<and>
      list_all (\<lambda>r. \<not> is_vector (cell_of (columns df) r ''event_label'')) (rows df))"

text \<open>The exception of the first of the three evaluator queries that raises, if one does.\<close>

definition first_failure :: "'sc psds_env \<Rightarrow> exn option" where
  "first_failure env =
     (case psds_query env 0 0 100 of
        Inl e \<Rightarrow> Some e
      | Inr _ \<Rightarrow>
          (case psds_query env 1 0 100 of
             Inl e \<Rightarrow> Some e
           | Inr _ \<Rightarrow> (case psds_query env 0 1 100 of Inl e \<Rightarrow> Some e | Inr _ \<Rightarrow> None)))"

text \<open>
  The event list of a file as the properties describe it: the record of the filename alone
  for a file with one row and no label, the records of its rows otherwise.
\<close>

definition file_events :: "frame \<Rightarrow> cell \<Rightarrow> pydict list" where
  "file_events df fname =
     (if length (file_rows df fname) = 1
         \<and> cell_of (columns df) (hd (file_rows df fname)) ''event_label'' = NA
      then [[(''filename'', fname)]]
      else map (zip (columns df)) (file_rows df fname))"

subsection \<open>Example inputs\<close>

definition example_reference :: frame where
  "example_reference =
     \<lparr>columns = [''filename'', ''onset'', ''offset'', ''event_label''],
      rows = [[Str ''a.wav'', NA, NA, NA],
              [Str ''b.wav'', Num 1, Num 2, Str ''dog''],
              [Str ''b.wav'', Num 3, Num 4, Str ''cat'']]\<rparr>"

definition example_estimated :: frame where
  "example_estimated =
     \<lparr>columns = [''event_label'', ''onset'', ''offset'', ''filename''],
      rows = [[Str ''dog'', Num 1, Num 2, Str ''b.wav''],
              [Str ''cat'', Num 0, Num 5, Str ''c.wav'']]\<rparr>"

text \<open>An evaluator whose second query raises its own error.\<close>

definition example_psds_env :: "nat psds_env" where
  "example_psds_env =
     \<lparr> psds_query = (\<lambda>alpha_ct alpha_st max_efpr.
         if alpha_ct = 1 then Inl (PSDSEvalError ''no operating point'') else Inr 1),
       format_value = (\<lambda>sc. ''1.00000''),
       path_dirname = (\<lambda>p. []),
       path_splitext = (\<lambda>p. (p, [])),
       os_makedirs = (\<lambda>d. Inr ()),
       plot_psd_roc = (\<lambda>sc f. Inr ()) \<rparr>"

text \<open>The three scores of a row of the table of results.\<close>

definition score_f :: "cell \<times> npfloat \<times> npfloat \<times> npfloat \<Rightarrow> npfloat" where
  "score_f row = fst (snd row)"

definition score_p :: "cell \<times> npfloat \<times> npfloat \<times> npfloat \<Rightarrow> npfloat" where
  "score_p row = fst (snd (snd row))"

definition score_r :: "cell \<times> npfloat \<times> npfloat \<times> npfloat \<Rightarrow> npfloat" where
  "score_r row = snd (snd (snd row))"

text \<open>
  A strongly labelled table: it has the columns \<open>filename\<close> and \<open>event_label\<close> and an
  \<open>onset\<close> or an \<open>offset\<close> column.
\<close>

definition strong_table :: "frame \<Rightarrow> bool" where
  "strong_table df =
     (''filename'' \<in> set (columns df) \<and> ''event_label'' \<in> set (columns df) \<and>
      (''onset'' \<in> set (columns df) \<or> ''offset'' \<in> set (columns df)))"

text \<open>The labels of a file: the distinct labels of its rows that are not missing.\<close>

definition file_labels :: "frame \<Rightarrow> cell \<Rightarrow> cell list" where
  "file_labels df k =
     dropna (unique (map (\<lambda>r. cell_of (columns df) r ''event_label'')
       (filter (\<lambda>r. cell_of (columns df) r ''filename'' = k) (rows df))))"

text \<open>The filenames of a table that form a group, in ascending order.\<close>

definition group_keys :: "frame \<Rightarrow> cell list" where
  "group_keys df = sorted_keys (dropna (filename_column df))"

text \<open>The rows of the weak table of a strong table: a filename and its many-hot vector.\<close>

definition weak_rows :: "cell list \<Rightarrow> frame \<Rightarrow> cell list list" where
  "weak_rows classes df = map (\<lambda>k. [k, Vec (many_hot classes (file_labels df k))]) (group_keys df)"

text \<open>A weak table given by its filenames and the vector of each.\<close>

definition weak_frame :: "cell list \<Rightarrow> (cell \<Rightarrow> int list) \<Rightarrow> frame" where
  "weak_frame ks vec = \<lparr>columns = [''filename'', ''event_label''], rows = map (\<lambda>k. [k, Vec (vec k)]) ks\<rparr>"

text \<open>
  The row of a key in the join of two weak tables: the key, the vector of the left table
  and the vector of the right table, each missing when that table has no row of the key.
\<close>

definition joined_row :: "cell list \<Rightarrow> (cell \<Rightarrow> int list) \<Rightarrow> cell list \<Rightarrow> (cell \<Rightarrow> int list) \<Rightarrow> cell \<Rightarrow> cell list" where
  "joined_row lk vl rk vr k =
     [k, if k \<in> set lk then Vec (vl k) else NA, if k \<in> set rk then Vec (vr k) else NA]"

text \<open>One side of a joined row after \<^verbatim>\<open>na_values\<close>: the vector, or zeros for a missing cell.\<close>

definition side_vector :: "nat \<Rightarrow> cell list \<Rightarrow> (cell \<Rightarrow> int list) \<Rightarrow> cell \<Rightarrow> int list" where
  "side_vector n ks vec k = (if k \<in> set ks then vec k else replicate n 0)"

text \<open>The sum of two quadruples of counts, class by class.\<close>

definition measures_add ::
  "int list \<times> int list \<times> int list \<times> int list \<Rightarrow> int list \<times> int list \<times> int list \<times> int list
     \<Rightarrow> int list \<times> int list \<times> int list \<times> int list" where
  "measures_add a b =
     (case a of (tp, fp, fn, tn) \<Rightarrow> case b of (tp', fp', fn', tn') \<Rightarrow>
        (map2 (+) tp tp', map2 (+) fp fp', map2 (+) fn fn', map2 (+) tn tn'))"

text \<open>Tables for the audio tagging: the file \<open>d.wav\<close> is in the reference only.\<close>

definition tagging_ref :: frame where
  "tagging_ref =
     \<lparr>columns = [''filename'', ''onset'', ''offset'', ''event_label''],
      rows = [[Str ''d.wav'', Num 2, Num 3, Str ''bird''],
              [Str ''a.wav'', Num 0, Num 1, Str ''dog''],
              [NA, Num 0, Num 1, Str ''fox'']]\<rparr>"

definition tagging_est :: frame where
  "tagging_est =
     \<lparr>columns = [''filename'', ''onset'', ''offset'', ''event_label''],
      rows = [[Str ''a.wav'', Num 0, Num 1, Str ''cat'']]\<rparr>"

text \<open>
  Weakly labelled tables, the labels of a file joined by commas in the column
  \<open>event_labels\<close>: the file \<open>d.wav\<close> is in the reference only.
\<close>

definition weak_reference :: frame where
  "weak_reference =
     \<lparr>columns = [''filename'', ''event_labels''],
      rows = [[Str ''a.wav'', Str ''dog,cat''], [Str ''d.wav'', Str ''bird'']]\<rparr>"

definition weak_estimated :: frame where
  "weak_estimated =
     \<lparr>columns = [''filename'', ''event_labels''], rows = [[Str ''a.wav'', Str ''dog'']]\<rparr>"

section \<open>Properties\<close>

subsection \<open>Confusion counts\<close>

lemma column_count:
  assumes "length A = length B"
    and "\<forall>r \<in> set A. j < length r" and "\<forall>r \<in> set B. j < length r"
  shows "sum_list (map (\<lambda>r. if r ! j then 1 else 0) (map (map (\<lambda>x. x = k)) (map2 (map2 f) A B)))
       = int (length (filter (\<lambda>(a, b). f (a ! j) (b ! j) = k) (zip A B)))"
  using assms by (induction A B rule: list_induct2) auto

lemma sum_axis0_length: "length (sum_axis0 a) = ncols a"
  by (simp add: sum_axis0_def)

lemma sum_axis0_nth:
  "j < ncols a \<Longrightarrow> sum_axis0 a ! j = sum_list (map (\<lambda>r. if r ! j then 1 else 0) (arows a))"
  by (simp add: sum_axis0_def)

lemma ncols_ops:
  "ncols (np_eq_scalar a k) = ncols a" "ncols (np_add x y) = ncols x" "ncols (np_sub x y) = ncols x"
  by (simp_all add: np_eq_scalar_def np_add_def np_sub_def)

lemma measures_nth:
  assumes "wf_array ref" "wf_array est" "same_shape ref est" "j < ncols ref"
  shows "sum_axis0 (np_eq_scalar (np_add est ref) k) ! j = rows_where (\<lambda>r e. r + e = k) ref est j"
    and "sum_axis0 (np_eq_scalar (np_sub est ref) k) ! j = rows_where (\<lambda>r e. e - r = k) ref est j"
    and "sum_axis0 (np_eq_scalar (np_sub ref est) k) ! j = rows_where (\<lambda>r e. r - e = k) ref est j"
proof -
  have l: "length (arows ref) = length (arows est)" "length (arows est) = length (arows ref)"
    and c: "ncols est = ncols ref"
    using assms(3) by (simp_all add: same_shape_def)
  have r: "\<forall>r \<in> set (arows ref). j < length r" "\<forall>r \<in> set (arows est). j < length r"
    using assms c by (auto simp: wf_array_def list_all_iff)
  have sw: "\<And>P. length (filter (\<lambda>(a, b). P a b) (zip (arows est) (arows ref)))
       = length (filter (\<lambda>(a, b). P b a) (zip (arows ref) (arows est)))"
  proof -
    fix P :: "int list \<Rightarrow> int list \<Rightarrow> bool"
    have "zip (arows est) (arows ref) = map (\<lambda>(a, b). (b, a)) (zip (arows ref) (arows est))"
      by (simp add: zip_commute[of "arows est"] case_prod_unfold)
    then show "length (filter (\<lambda>(a, b). P a b) (zip (arows est) (arows ref)))
       = length (filter (\<lambda>(a, b). P b a) (zip (arows ref) (arows est)))"
      by (simp add: filter_map o_def case_prod_unfold)
  qed
  show "sum_axis0 (np_eq_scalar (np_add est ref) k) ! j = rows_where (\<lambda>r e. r + e = k) ref est j"
    using assms(4) c column_count[OF l(2) r(2) r(1), where f="(+)" and k=k]
    by (simp add: sum_axis0_nth np_eq_scalar_def np_add_def rows_where_def sw add.commute)
  show "sum_axis0 (np_eq_scalar (np_sub est ref) k) ! j = rows_where (\<lambda>r e. e - r = k) ref est j"
    using assms(4) c column_count[OF l(2) r(2) r(1), where f="(-)" and k=k]
    by (simp add: sum_axis0_nth np_eq_scalar_def np_sub_def rows_where_def sw)
  show "sum_axis0 (np_eq_scalar (np_sub ref est) k) ! j = rows_where (\<lambda>r e. r - e = k) ref est j"
    using assms(4) c column_count[OF l(1) r(1) r(2), where f="(-)" and k=k]
    by (simp add: sum_axis0_nth np_eq_scalar_def np_sub_def rows_where_def)
qed

lemma four_way_count:
  assumes "\<forall>z \<in> set zs. (P1 z \<or> P2 z \<or> P3 z \<or> P4 z)
      \<and> \<not> (P1 z \<and> P2 z) \<and> \<not> (P1 z \<and> P3 z) \<and> \<not> (P1 z \<and> P4 z)
      \<and> \<not> (P2 z \<and> P3 z) \<and> \<not> (P2 z \<and> P4 z) \<and> \<not> (P3 z \<and> P4 z)"
  shows "length (filter P1 zs) + length (filter P2 zs) + length (filter P3 zs) + length (filter P4 zs)
       = length zs"
  using assms by (induction zs) auto

lemma binary_entries:
  assumes "binary_array a" "wf_array a" "j < ncols a" "r \<in> set (arows a)"
  shows "r ! j = 0 \<or> r ! j = 1"
  using assms by (auto simp: binary_array_def wf_array_def list_all_iff)

lemma partition_rows:
  assumes "wf_array ref" "wf_array est" "same_shape ref est" "j < ncols ref"
    "binary_array ref" "binary_array est"
  shows "rows_where (\<lambda>r e. r + e = 2) ref est j + rows_where (\<lambda>r e. e - r = 1) ref est j
       + rows_where (\<lambda>r e. r - e = 1) ref est j + rows_where (\<lambda>r e. r + e = 0) ref est j
       = int (length (arows ref))"
proof -
  have c: "j < ncols est" and l: "length (arows est) = length (arows ref)"
    using assms(3,4) by (simp_all add: same_shape_def)
  have key: "(fst z ! j = 0 \<or> fst z ! j = 1) \<and> (snd z ! j = 0 \<or> snd z ! j = 1)"
    if "z \<in> set (zip (arows ref) (arows est))" for z
    using that binary_entries[OF assms(5) assms(1) assms(4)] binary_entries[OF assms(6) assms(2) c]
    by (metis set_zip_leftD set_zip_rightD prod.collapse)
  have "length (filter (\<lambda>(r, e). r ! j + e ! j = 2) (zip (arows ref) (arows est)))
      + length (filter (\<lambda>(r, e). e ! j - r ! j = 1) (zip (arows ref) (arows est)))
      + length (filter (\<lambda>(r, e). r ! j - e ! j = 1) (zip (arows ref) (arows est)))
      + length (filter (\<lambda>(r, e). r ! j + e ! j = 0) (zip (arows ref) (arows est)))
      = length (zip (arows ref) (arows est))"
  proof (intro four_way_count ballI)
    fix z assume "z \<in> set (zip (arows ref) (arows est))"
    from key[OF this] show "((case z of (r, e) \<Rightarrow> r ! j + e ! j = 2) \<or>
          (case z of (r, e) \<Rightarrow> e ! j - r ! j = 1) \<or>
          (case z of (r, e) \<Rightarrow> r ! j - e ! j = 1) \<or> (case z of (r, e) \<Rightarrow> r ! j + e ! j = 0)) \<and>
         \<not> ((case z of (r, e) \<Rightarrow> r ! j + e ! j = 2) \<and> (case z of (r, e) \<Rightarrow> e ! j - r ! j = 1)) \<and>
         \<not> ((case z of (r, e) \<Rightarrow> r ! j + e ! j = 2) \<and> (case z of (r, e) \<Rightarrow> r ! j - e ! j = 1)) \<and>
         \<not> ((case z of (r, e) \<Rightarrow> r ! j + e ! j = 2) \<and> (case z of (r, e) \<Rightarrow> r ! j + e ! j = 0)) \<and>
         \<not> ((case z of (r, e) \<Rightarrow> e ! j - r ! j = 1) \<and> (case z of (r, e) \<Rightarrow> r ! j - e ! j = 1)) \<and>
         \<not> ((case z of (r, e) \<Rightarrow> e ! j - r ! j = 1) \<and> (case z of (r, e) \<Rightarrow> r ! j + e ! j = 0)) \<and>
         \<not> ((case z of (r, e) \<Rightarrow> r ! j - e ! j = 1) \<and> (case z of (r, e) \<Rightarrow> r ! j + e ! j = 0))"
      by (auto simp: case_prod_unfold; presburger)
  qed
  then show ?thesis
    using l unfolding rows_where_def by (simp flip: of_nat_add)
qed

text \<open>
  C1. For two well-formed arrays of one shape, \<^verbatim>\<open>intermediate_at_measures(ref, est)\<close>
  returns four vectors with one count per class: \<open>tp\<close> counts the rows with
  \<open>ref + est = 2\<close>, \<open>fp\<close> those with \<open>est - ref = 1\<close>, \<open>fn\<close> those with \<open>ref - est = 1\<close> and
  \<open>tn\<close> those with \<open>ref + est = 0\<close>. For the single class with \<open>ref = [1,0,1,1]\<close> and
  \<open>est = [1,1,0,1]\<close> the counts are \<open>tp = 2\<close>, \<open>fp = 1\<close>, \<open>fn = 1\<close>, \<open>tn = 0\<close>.
\<close>

theorem intermediate_at_measures_counts:
  "(wf_array ref \<and> wf_array est \<and> same_shape ref est \<longrightarrow>
      (case intermediate_at_measures ref est of (tp, fp, fn, tn) \<Rightarrow>
         length tp = ncols ref \<and> length fp = ncols ref \<and> length fn = ncols ref \<and>
         length tn = ncols ref \<and>
         (\<forall>j < ncols ref.
            tp ! j = rows_where (\<lambda>r e. r + e = 2) ref est j \<and>
            fp ! j = rows_where (\<lambda>r e. e - r = 1) ref est j \<and>
            fn ! j = rows_where (\<lambda>r e. r - e = 1) ref est j \<and>
            tn ! j = rows_where (\<lambda>r e. r + e = 0) ref est j)))
   \<and> intermediate_at_measures (Array2 1 [[1], [0], [1], [1]]) (Array2 1 [[1], [1], [0], [1]])
       = ([2], [1], [1], [0])"
proof (intro conjI impI)
  assume a: "wf_array ref \<and> wf_array est \<and> same_shape ref est"
  then have c: "ncols est = ncols ref" by (simp add: same_shape_def)
  from a show "case intermediate_at_measures ref est of (tp, fp, fn, tn) \<Rightarrow>
         length tp = ncols ref \<and> length fp = ncols ref \<and> length fn = ncols ref \<and>
         length tn = ncols ref \<and>
         (\<forall>j < ncols ref.
            tp ! j = rows_where (\<lambda>r e. r + e = 2) ref est j \<and>
            fp ! j = rows_where (\<lambda>r e. e - r = 1) ref est j \<and>
            fn ! j = rows_where (\<lambda>r e. r - e = 1) ref est j \<and>
            tn ! j = rows_where (\<lambda>r e. r + e = 0) ref est j)"
    unfolding intermediate_at_measures_def Let_def prod.case
    by (simp add: measures_nth sum_axis0_length ncols_ops c)
next
  show "intermediate_at_measures (Array2 1 [[1], [0], [1], [1]]) (Array2 1 [[1], [1], [0], [1]])
       = ([2], [1], [1], [0])"
    by (simp add: intermediate_at_measures_def sum_axis0_def np_eq_scalar_def np_add_def np_sub_def)
qed

theorem intermediate_at_measures_counts_witness:
  "wf_array (Array2 2 [[1, 0], [0, 1], [1, 1]]) \<and> wf_array (Array2 2 [[1, 1], [0, 0], [0, 1]])
   \<and> same_shape (Array2 2 [[1, 0], [0, 1], [1, 1 :: int]]) (Array2 2 [[1, 1], [0, 0], [0, 1 :: int]])
   \<and> fst (intermediate_at_measures (Array2 2 [[1, 0], [0, 1], [1, 1]]) (Array2 2 [[1, 1], [0, 0], [0, 1]])) ! 1
       = rows_where (\<lambda>r e. r + e = 2) (Array2 2 [[1, 0], [0, 1], [1, 1]]) (Array2 2 [[1, 1], [0, 0], [0, 1]]) 1
   \<and> rows_where (\<lambda>r e. r + e = 2) (Array2 2 [[1, 0], [0, 1], [1, 1]]) (Array2 2 [[1, 1], [0, 0], [0, 1]]) 1 = 1"
  using intermediate_at_measures_counts
          [of "Array2 2 [[1, 0], [0, 1], [1, 1]]" "Array2 2 [[1, 1], [0, 0], [0, 1]]"]
  by (simp add: wf_array_def same_shape_def rows_where_def split: prod.splits)

text \<open>
  C8. For two well-formed arrays of one shape with entries 0 and 1, the four counts of
  every class add up to the number of rows: every row falls in exactly one of the four
  cases.
\<close>

theorem intermediate_at_measures_partition:
  assumes "wf_array ref" "wf_array est" "same_shape ref est" "binary_array ref" "binary_array est"
    and "intermediate_at_measures ref est = (tp, fp, fn, tn)" and "j < ncols ref"
  shows "tp ! j + fp ! j + fn ! j + tn ! j = int (length (arows ref))"
proof -
  have "tp = sum_axis0 (np_eq_scalar (np_add est ref) 2)"
    "fp = sum_axis0 (np_eq_scalar (np_sub est ref) 1)"
    "fn = sum_axis0 (np_eq_scalar (np_sub ref est) 1)"
    "tn = sum_axis0 (np_eq_scalar (np_add est ref) 0)"
    using assms(6) by (simp_all add: intermediate_at_measures_def Let_def)
  then show ?thesis
    using partition_rows[OF assms(1,2,3,7,4,5)] assms(1,2,3,7) by (simp add: measures_nth)
qed

theorem intermediate_at_measures_partition_witness:
  "wf_array (Array2 2 [[1, 0], [0, 1], [1, 1 :: int]]) \<and> wf_array (Array2 2 [[1, 1], [0, 0], [0, 1 :: int]])
   \<and> same_shape (Array2 2 [[1, 0], [0, 1], [1, 1 :: int]]) (Array2 2 [[1, 1], [0, 0], [0, 1 :: int]])
   \<and> binary_array (Array2 2 [[1, 0], [0, 1], [1, 1]]) \<and> binary_array (Array2 2 [[1, 1], [0, 0], [0, 1]])
   \<and> intermediate_at_measures (Array2 2 [[1, 0], [0, 1], [1, 1]]) (Array2 2 [[1, 1], [0, 0], [0, 1]])
       = ([1, 1], [0, 1], [1, 1], [1, 0])
   \<and> [1, 1] ! 1 + [0, 1] ! 1 + [1, 1] ! 1 + [1, 0] ! 1 = int (length [[1, 0], [0, 1], [1, 1 :: int]])"
  using intermediate_at_measures_partition
          [of "Array2 2 [[1, 0], [0, 1], [1, 1]]" "Array2 2 [[1, 1], [0, 0], [0, 1]]"
              "[1, 1]" "[0, 1]" "[1, 1]" "[1, 0]" 1]
  by (simp add: wf_array_def same_shape_def binary_array_def intermediate_at_measures_def
        sum_axis0_def np_eq_scalar_def np_add_def np_sub_def eval_nat_numeral)

subsection \<open>The F-measure\<close>

lemma wrap64_id: "- (2 ^ 63) \<le> x \<Longrightarrow> x < 2 ^ 63 \<Longrightarrow> wrap64 x = x"
  by (simp add: wrap64_def)

lemma wrap64_zero [simp]: "wrap64 0 = 0"
  by (simp add: wrap64_def)

lemma wrap64_add_left: "wrap64 (wrap64 a + b) = wrap64 (a + b)"
proof -
  have "(((a + 2 ^ 63) mod 2 ^ 64 - 2 ^ 63) + b + 2 ^ 63) mod (2 ^ 64 :: int)
      = ((a + 2 ^ 63) mod 2 ^ 64 + b) mod 2 ^ 64"
    by (simp add: algebra_simps)
  also have "\<dots> = (a + 2 ^ 63 + b) mod 2 ^ 64"
    by (rule mod_add_left_eq)
  finally show ?thesis
    by (simp add: wrap64_def algebra_simps)
qed

lemma f_denominator_wrap:
  "add64 (add64 (mul64 2 t) p) n = wrap64 (2 * t + p + n)"
  by (simp add: add64_def mul64_def wrap64_add_left)

lemma macro_f_measure_map:
  assumes "length tp = length fp" "length fp = length fn"
  shows "macro_f_measure tp fp fn =
     map (\<lambda>(t, p, n). if wrap64 (2 * t + p + n) \<noteq> 0
                       then true_divide (wrap64 (2 * t)) (wrap64 (2 * t + p + n))
                       else Finite 0) (zip tp (zip fp fn))"
  using assms
  by (induction tp fp fn rule: list_induct3)
     (simp_all add: macro_f_measure_def f_denominator_def np_compress_def Let_def
        f_denominator_wrap, simp_all add: mul64_def)

text \<open>
  C2, as the code has it. For three vectors of one length of counts that are not negative
  and whose \<open>2 tp + fp + fn\<close> stays below \<open>2^63\<close> in every class (the int64 arithmetic does
  not wrap around), \<^verbatim>\<open>macro_f_measure(tp, fp, fn)\<close> returns a vector of that length whose
  entry for a class is the float64 quotient of \<open>2 tp\<close> by \<open>2 tp + fp + fn\<close> when the
  denominator is not zero and 0 otherwise; when all counts are zero, every entry is 0.
\<close>

theorem macro_f_measure_per_class:
  "(length tp = length fp \<and> length fp = length fn \<and>
    (\<forall>c < length tp. 0 \<le> tp ! c \<and> 0 \<le> fp ! c \<and> 0 \<le> fn ! c
        \<and> 2 * tp ! c + fp ! c + fn ! c < 2 ^ 63) \<longrightarrow>
      length (macro_f_measure tp fp fn) = length tp \<and>
      (\<forall>c < length tp.
         macro_f_measure tp fp fn ! c =
           (if 2 * tp ! c + fp ! c + fn ! c \<noteq> 0
            then true_divide (2 * tp ! c) (2 * tp ! c + fp ! c + fn ! c)
            else Finite 0)))
   \<and> macro_f_measure (replicate n 0) (replicate n 0) (replicate n 0) = replicate n (Finite 0)"
proof (intro conjI impI allI)
  assume a: "length tp = length fp \<and> length fp = length fn \<and>
    (\<forall>c < length tp. 0 \<le> tp ! c \<and> 0 \<le> fp ! c \<and> 0 \<le> fn ! c
        \<and> 2 * tp ! c + fp ! c + fn ! c < 2 ^ 63)"
  then show "length (macro_f_measure tp fp fn) = length tp"
    by (simp add: macro_f_measure_map)
  fix c assume c: "c < length tp"
  with a have r: "0 \<le> tp ! c" "0 \<le> fp ! c" "0 \<le> fn ! c" "2 * tp ! c + fp ! c + fn ! c < 2 ^ 63"
    by simp_all
  then have w: "wrap64 (2 * tp ! c + fp ! c + fn ! c) = 2 * tp ! c + fp ! c + fn ! c"
    "wrap64 (2 * tp ! c) = 2 * tp ! c"
    by (simp_all add: wrap64_id)
  from a c show "macro_f_measure tp fp fn ! c =
           (if 2 * tp ! c + fp ! c + fn ! c \<noteq> 0
            then true_divide (2 * tp ! c) (2 * tp ! c + fp ! c + fn ! c)
            else Finite 0)"
    by (simp add: macro_f_measure_map w)
next
  have "macro_f_measure (replicate n 0) (replicate n 0) (replicate n 0)
      = map (\<lambda>(t, p, n). if wrap64 (2 * t + p + n) \<noteq> 0
                       then true_divide (wrap64 (2 * t)) (wrap64 (2 * t + p + n))
                       else Finite 0) (zip (replicate n 0) (zip (replicate n 0) (replicate n 0)))"
    by (rule macro_f_measure_map) simp_all
  also have "\<dots> = replicate n (Finite 0)"
    by (induction n) simp_all
  finally show "macro_f_measure (replicate n 0) (replicate n 0) (replicate n 0) = replicate n (Finite 0)" .
qed

lemma macro_f_measure_example:
  "macro_f_measure [2, 0, 1] [1, 0, 1] [1, 0, 0]
     = [Finite (6004799503160661 / 9007199254740992), Finite 0,
        Finite (6004799503160661 / 9007199254740992)]"
  by code_simp

lemma true_divide_examples:
  "true_divide 4 6 = Finite (6004799503160661 / 9007199254740992)"
  "true_divide 1 10 = Finite (3602879701896397 / 36028797018963968)"
  "true_divide 1 2 = Finite (1 / 2)"
  "true_divide 0 0 = NaN"
  "true_divide 3 0 = PosInf"
  by code_simp+

theorem macro_f_measure_per_class_witness:
  "length [2, 0, 1 :: int] = length [1, 0, 1 :: int] \<and> length [1, 0, 1 :: int] = length [1, 0, 0 :: int]
   \<and> list_all (\<lambda>c. 0 \<le> [2, 0, 1 :: int] ! c \<and> 0 \<le> [1, 0, 1 :: int] ! c \<and> 0 \<le> [1, 0, 0 :: int] ! c
        \<and> 2 * [2, 0, 1] ! c + [1, 0, 1] ! c + [1, 0, 0] ! c < (2 ^ 63 :: int)) [0, 1, 2]
   \<and> macro_f_measure [2, 0, 1] [1, 0, 1] [1, 0, 0] ! 0 = true_divide 4 6
   \<and> true_divide 4 6 = Finite (6004799503160661 / 9007199254740992)
   \<and> macro_f_measure [2, 0, 1] [1, 0, 1] [1, 0, 0] ! 1 = Finite 0"
proof -
  let ?tp = "[2, 0, 1 :: int]" and ?fp = "[1, 0, 1 :: int]" and ?fn = "[1, 0, 0 :: int]"
  have h: "\<forall>c < length ?tp. 0 \<le> ?tp ! c \<and> 0 \<le> ?fp ! c \<and> 0 \<le> ?fn ! c
        \<and> 2 * ?tp ! c + ?fp ! c + ?fn ! c < 2 ^ 63"
    by (simp add: nth_Cons' less_Suc_eq eval_nat_numeral)
  from macro_f_measure_per_class [of ?tp ?fp ?fn 0] h
  have all: "\<forall>c < length ?tp. macro_f_measure ?tp ?fp ?fn ! c =
           (if 2 * ?tp ! c + ?fp ! c + ?fn ! c \<noteq> 0
            then true_divide (2 * ?tp ! c) (2 * ?tp ! c + ?fp ! c + ?fn ! c)
            else Finite 0)"
    by simp
  from all[rule_format, of 0] all[rule_format, of 1]
  have "macro_f_measure ?tp ?fp ?fn ! 0 = true_divide 4 6"
    "macro_f_measure ?tp ?fp ?fn ! 1 = Finite 0"
    by simp_all
  then show ?thesis
    using true_divide_examples(1) by (simp add: nth_Cons')
qed

text \<open>
  The claim without the bound fails: the counts \<open>tp = 2^63 - 1\<close>, \<open>fp = 2\<close>, \<open>fn = 0\<close> are
  not negative and \<open>2 tp + fp + fn\<close> is not zero, but in int64 arithmetic \<open>2 tp\<close> is \<open>-2\<close>,
  the denominator is 0 and the entry returned is 0.
\<close>

theorem macro_f_measure_int64_overflow:
  "0 \<le> (9223372036854775807 :: int) \<and> 2 * 9223372036854775807 + 2 + 0 \<noteq> (0 :: int)
   \<and> (2 * 9223372036854775807 :: rat) / (2 * 9223372036854775807 + 2 + 0) \<noteq> 0
   \<and> mul64 2 9223372036854775807 = - 2
   \<and> f_denominator [9223372036854775807] [2] [0] = [0]
   \<and> macro_f_measure [9223372036854775807] [2] [0] = [Finite 0]"
  by (simp add: macro_f_measure_def f_denominator_def np_compress_def add64_def mul64_def wrap64_def)

subsection \<open>The report on empty predictions\<close>

lemma bind_exn_simps [simp]:
  "bind_exn (Inr v) f = f v" "bind_exn (Inl e) f = Inl e"
  by (simp_all add: bind_exn_def)

text \<open>
  C3. When the table of predictions is empty, \<^verbatim>\<open>compute_metrics\<close> returns the triple
  \<open>(0, 0, 0)\<close>, whatever the ground truth, the metadata and the two flags are.
\<close>

theorem compute_metrics_empty_predictions:
  "df_empty predictions \<Longrightarrow>
     compute_metrics lib predictions gtruth_df meta_df cal_seg cal_clip = Inr (PyInt 0, PyInt 0, PyInt 0)"
  by (simp add: compute_metrics_def)

theorem compute_metrics_empty_predictions_witness:
  "df_empty \<lparr>columns = [''event_label'', ''onset'', ''offset'', ''filename''], rows = []\<rparr>
   \<and> compute_metrics recording_lib
        \<lparr>columns = [''event_label'', ''onset'', ''offset'', ''filename''], rows = []\<rparr>
        example_reference None True True
       = Inr (PyInt 0, PyInt 0, PyInt 0)"
  using compute_metrics_empty_predictions
    [of "\<lparr>columns = [''event_label'', ''onset'', ''offset'', ''filename''], rows = []\<rparr>"
        recording_lib example_reference None True True]
  by (simp add: df_empty_def)

subsection \<open>Tables that are weak already\<close>

text \<open>
  C7. A table with neither an \<open>onset\<close> nor an \<open>offset\<close> column is returned by \<^verbatim>\<open>format_df\<close>
  as it is, for every encoder; formatting it a second time gives the same table again.
\<close>

theorem format_df_weak_identity:
  "''onset'' \<notin> set (columns df) \<and> ''offset'' \<notin> set (columns df) \<longrightarrow>
     format_df df mhe = Inr df \<and> bind_exn (format_df df mhe) (\<lambda>d. format_df d mhe') = Inr df"
  by (simp add: format_df_def)

theorem format_df_weak_identity_witness:
  "''onset'' \<notin> set (columns \<lparr>columns = [''filename'', ''event_label''], rows = [[Str ''a.wav'', Vec [1, 0]]]\<rparr>)
   \<and> ''offset'' \<notin> set (columns \<lparr>columns = [''filename'', ''event_label''], rows = [[Str ''a.wav'', Vec [1, 0]]]\<rparr>)
   \<and> format_df \<lparr>columns = [''filename'', ''event_label''], rows = [[Str ''a.wav'', Vec [1, 0]]]\<rparr>
        (ManyHotEncoder [Str ''dog'', Str ''cat''])
      = Inr \<lparr>columns = [''filename'', ''event_label''], rows = [[Str ''a.wav'', Vec [1, 0]]]\<rparr>"
  using format_df_weak_identity
    [of "\<lparr>columns = [''filename'', ''event_label''], rows = [[Str ''a.wav'', Vec [1, 0]]]\<rparr>"
        "ManyHotEncoder [Str ''dog'', Str ''cat'']"]
  by simp

subsection \<open>The event list of a file\<close>

lemma np_compress_map: "np_compress (map Q ys) ys = filter Q ys"
  by (induction ys) (simp_all add: np_compress_def)

lemma select_file_rows:
  "''filename'' \<in> set (columns df) \<Longrightarrow>
   get_item df ''filename'' = Inr (filename_column df) \<and>
   select_rows df (map (\<lambda>c. cell_eq c fname) (filename_column df)) = df\<lparr>rows := file_rows df fname\<rparr>"
  by (simp add: get_item_def filename_column_def select_rows_def file_rows_def np_compress_map
        comp_def)

lemma isna_truth_plain: "\<not> is_vector c \<Longrightarrow> isna_truth c = Inr (c = NA)"
  by (cases c) simp_all

lemma get_event_list_eq:
  assumes "event_table df"
  shows "get_event_list_current_file df fname = Inr (file_events df fname)"
proof -
  have c: "''filename'' \<in> set (columns df)" "''event_label'' \<in> set (columns df)"
    using assms by (simp_all add: event_table_def)
  have v: "\<not> is_vector (cell_of (columns df) r ''event_label'')" if "r \<in> set (file_rows df fname)" for r
    using that assms by (auto simp: event_table_def file_rows_def list_all_iff)
  show ?thesis
  proof (cases "length (file_rows df fname) = 1")
    case False
    then show ?thesis
      using select_file_rows[OF c(1), of fname]
      by (simp add: get_event_list_current_file_def to_dict_records_def file_events_def)
  next
    case True
    then obtain r where r: "file_rows df fname = [r]"
      by (cases "file_rows df fname") auto
    then have "\<not> is_vector (cell_of (columns df) r ''event_label'')"
      using v by simp
    then show ?thesis
      using select_file_rows[OF c(1), of fname] c(2) r
      by (simp add: get_event_list_current_file_def to_dict_records_def get_item_def
            isna_truth_plain file_events_def)
  qed
qed

text \<open>
  C4, as the code has it. On a table of events, when exactly one row belongs to the file and
  its label is missing, \<^verbatim>\<open>get_event_list_current_file\<close> returns a list of one record that
  holds the filename and nothing else; in every other case it returns one record per row of
  the file.
\<close>

theorem get_event_list_current_file_records:
  assumes "event_table df"
  shows "get_event_list_current_file df fname =
     Inr (if length (file_rows df fname) = 1
             \<and> cell_of (columns df) (hd (file_rows df fname)) ''event_label'' = NA
          then [[(''filename'', fname)]]
          else map (zip (columns df)) (file_rows df fname))"
  using get_event_list_eq[OF assms, of fname] by (simp add: file_events_def)

theorem get_event_list_current_file_records_witness:
  "event_table example_reference
   \<and> get_event_list_current_file example_reference (Str ''a.wav'') = Inr [[(''filename'', Str ''a.wav'')]]
   \<and> get_event_list_current_file example_reference (Str ''b.wav'')
       = Inr [[(''filename'', Str ''b.wav''), (''onset'', Num 1), (''offset'', Num 2),
               (''event_label'', Str ''dog'')],
              [(''filename'', Str ''b.wav''), (''onset'', Num 3), (''offset'', Num 4),
               (''event_label'', Str ''cat'')]]"
  using get_event_list_current_file_records [of example_reference "Str ''a.wav''"]
        get_event_list_current_file_records [of example_reference "Str ''b.wav''"]
  by (simp add: example_reference_def event_table_def file_rows_def cell_of_def cell_eq_def)

text \<open>
  The claim as the specification words it fails: the file \<open>a.wav\<close> of the example has one
  row without a label, and the list returned for it is not empty.
\<close>

theorem single_missing_label_gives_one_record:
  "length (file_rows example_reference (Str ''a.wav'')) = 1
   \<and> cell_of (columns example_reference) (hd (file_rows example_reference (Str ''a.wav''))) ''event_label'' = NA
   \<and> get_event_list_current_file example_reference (Str ''a.wav'') \<noteq> Inr []
   \<and> get_event_list_current_file example_reference (Str ''a.wav'') = Inr [[(''filename'', Str ''a.wav'')]]"
  by (simp add: example_reference_def get_event_list_current_file_def get_item_def cell_of_def
        select_rows_def np_compress_def cell_eq_def to_dict_records_def file_rows_def)

subsection \<open>The files submitted to the metrics\<close>

lemma file_events_filename:
  assumes "d \<in> set (file_events df fname)"
  shows "map_of d ''filename'' = Some fname"
proof (cases "length (file_rows df fname) = 1
         \<and> cell_of (columns df) (hd (file_rows df fname)) ''event_label'' = NA")
  case True
  then show ?thesis using assms by (simp add: file_events_def)
next
  case False
  then obtain r where r: "r \<in> set (file_rows df fname)" and d: "d = zip (columns df) r"
    using assms by (auto simp: file_events_def)
  from r have "cell_eq (cell_of (columns df) r ''filename'') fname"
    by (simp add: file_rows_def)
  then show ?thesis
    unfolding d by (auto simp: cell_eq_def cell_of_def split: option.splits)
qed

lemma evaluate_files_submit:
  assumes "event_table reference" "event_table estimated"
  shows "evaluate_files ev reference estimated fs m =
     submit_all ev (map (\<lambda>f. (file_events reference f, file_events estimated f)) fs) m"
  by (induction fs arbitrary: m)
     (simp_all add: get_event_list_eq[OF assms(1)] get_event_list_eq[OF assms(2)] bind_exn_def
        split: sum.splits)

lemma set_unique [simp]: "set (unique xs) = set xs"
  by (simp add: unique_def)

lemma event_classes_ok:
  assumes "event_table reference" "event_table estimated"
  shows "\<exists>classes. event_classes reference estimated = Inr classes"
  using assms by (simp add: event_classes_def event_table_def get_attr_def)

text \<open>
  C10. On tables of events, \<^verbatim>\<open>event_based_evaluation_df\<close> and \<^verbatim>\<open>segment_based_evaluation_df\<close>
  hand to the metric object exactly one pair of event lists per distinct filename of the
  reference table, in the order of first appearance: the two lists of that file. Every record
  submitted carries a filename of the reference table, so no record of a file that only the
  estimated table names is ever submitted.
\<close>

theorem evaluation_submits_reference_files:
  assumes "event_table reference" "event_table estimated"
  shows "\<exists>classes subs.
       event_classes reference estimated = Inr classes
     \<and> map (\<lambda>(r, e). (Inr r, Inr e)) subs
         = map (\<lambda>f. (get_event_list_current_file reference f,
                      get_event_list_current_file estimated f))
             (unique (filename_column reference))
     \<and> event_based_evaluation_df lib reference estimated t_collar percentage_of_length
         = submit_all (event_evaluate lib) subs
             (event_based_metrics lib classes t_collar percentage_of_length ''zero_score'')
     \<and> segment_based_evaluation_df lib reference estimated time_resolution
         = submit_all (segment_evaluate lib) subs (segment_based_metrics lib classes time_resolution)
     \<and> (\<forall>(r, e) \<in> set subs. \<forall>d \<in> set (r @ e).
           \<exists>f \<in> set (filename_column reference). map_of d ''filename'' = Some f)
     \<and> (g \<notin> set (filename_column reference) \<longrightarrow>
           (\<forall>(r, e) \<in> set subs. \<forall>d \<in> set (r @ e). map_of d ''filename'' \<noteq> Some g))"
proof -
  obtain classes where cl: "event_classes reference estimated = Inr classes"
    using event_classes_ok[OF assms] by blast
  define subs where "subs = map (\<lambda>f. (file_events reference f, file_events estimated f))
      (unique (filename_column reference))"
  have fn: "get_item reference ''filename'' = Inr (filename_column reference)"
    using assms(1) by (simp add: event_table_def get_item_def filename_column_def)
  have 1: "map (\<lambda>(r, e). (Inr r, Inr e)) subs
         = map (\<lambda>f. (get_event_list_current_file reference f,
                      get_event_list_current_file estimated f))
             (unique (filename_column reference))"
    by (simp add: subs_def get_event_list_eq[OF assms(1)] get_event_list_eq[OF assms(2)] comp_def)
  have 2: "event_based_evaluation_df lib reference estimated t_collar percentage_of_length
         = submit_all (event_evaluate lib) subs
             (event_based_metrics lib classes t_collar percentage_of_length ''zero_score'')"
    by (simp add: event_based_evaluation_df_def fn cl evaluate_files_submit[OF assms] subs_def)
  have 3: "segment_based_evaluation_df lib reference estimated time_resolution
         = submit_all (segment_evaluate lib) subs (segment_based_metrics lib classes time_resolution)"
    by (simp add: segment_based_evaluation_df_def fn cl evaluate_files_submit[OF assms] subs_def)
  have 4: "\<exists>f \<in> set (filename_column reference). map_of d ''filename'' = Some f"
    if "(r, e) \<in> set subs" "d \<in> set (r @ e)" for r e d
    using that by (auto simp: subs_def dest: file_events_filename)
  have 5: "map_of d ''filename'' \<noteq> Some g"
    if "g \<notin> set (filename_column reference)" "(r, e) \<in> set subs" "d \<in> set (r @ e)" for r e d
    using 4[OF that(2,3)] that(1) by auto
  show ?thesis
    using cl 1 2 3 4 5 by (intro exI[of _ classes] exI[of _ subs]) blast
qed

lemma example_recording:
  "event_based_evaluation_df recording_lib example_reference example_estimated (1 / 5) (1 / 5)
     = Inr [([[(''filename'', Str ''a.wav'')]], []),
            ([[(''filename'', Str ''b.wav''), (''onset'', Num 1), (''offset'', Num 2),
               (''event_label'', Str ''dog'')],
              [(''filename'', Str ''b.wav''), (''onset'', Num 3), (''offset'', Num 4),
               (''event_label'', Str ''cat'')]],
             [[(''event_label'', Str ''dog''), (''onset'', Num 1), (''offset'', Num 2),
               (''filename'', Str ''b.wav'')]])]"
  by (simp add: event_based_evaluation_df_def example_reference_def example_estimated_def
        get_item_def cell_of_def unique_def event_classes_def get_attr_def
        get_event_list_current_file_def select_rows_def np_compress_def cell_eq_def
        to_dict_records_def recording_lib_def)

theorem evaluation_submits_reference_files_witness:
  "event_table example_reference \<and> event_table example_estimated
   \<and> Str ''c.wav'' \<in> set (filename_column example_estimated)
   \<and> Str ''c.wav'' \<notin> set (filename_column example_reference)
   \<and> (\<exists>subs. event_based_evaluation_df recording_lib example_reference example_estimated (1 / 5) (1 / 5)
              = Inr subs
         \<and> length subs = 2
         \<and> list_all (\<lambda>(r, e). list_all (\<lambda>d. map_of d ''filename'' \<noteq> Some (Str ''c.wav'')) (r @ e)) subs)"
proof -
  have t: "event_table example_reference" "event_table example_estimated"
    by (simp_all add: example_reference_def example_estimated_def event_table_def cell_of_def)
  have n: "Str ''c.wav'' \<notin> set (filename_column example_reference)"
    "Str ''c.wav'' \<in> set (filename_column example_estimated)"
    by (simp_all add: example_reference_def example_estimated_def filename_column_def cell_of_def)
  obtain classes subs where
    s: "event_based_evaluation_df recording_lib example_reference example_estimated (1 / 5) (1 / 5)
         = submit_all (event_evaluate recording_lib) subs
             (event_based_metrics recording_lib classes (1 / 5) (1 / 5) ''zero_score'')"
    and l: "map (\<lambda>(r, e). (Inr r, Inr e)) subs
         = map (\<lambda>f. (get_event_list_current_file example_reference f,
                      get_event_list_current_file example_estimated f))
             (unique (filename_column example_reference))"
    and g: "Str ''c.wav'' \<notin> set (filename_column example_reference) \<longrightarrow>
           (\<forall>(r, e) \<in> set subs. \<forall>d \<in> set (r @ e). map_of d ''filename'' \<noteq> Some (Str ''c.wav''))"
    using evaluation_submits_reference_files
      [OF t, of recording_lib "1 / 5" "1 / 5" 1 "Str ''c.wav''"] by blast
  have rec: "submit_all (event_evaluate recording_lib) xs m = Inr (m @ xs)" for xs m
    by (induction xs arbitrary: m) (auto simp: recording_lib_def)
  have "length (map (\<lambda>(r, e). (Inr r :: exn + pydict list, Inr e :: exn + pydict list)) subs) = 2"
    unfolding l by (simp add: example_reference_def filename_column_def cell_of_def unique_def)
  then have len: "length subs = 2" by simp
  have "event_based_evaluation_df recording_lib example_reference example_estimated (1 / 5) (1 / 5)
         = Inr subs"
    unfolding s rec by (simp add: recording_lib_def)
  then show ?thesis
    using t n g len by (auto simp: list_all_iff)
qed

subsection \<open>The PSDS queries and the recovery from the evaluator's error\<close>

lemma queries_of_simps [simp]:
  "queries_of [] = []"
  "queries_of (tr @ tr') = queries_of tr @ queries_of tr'"
  "queries_of (Queried a b c # tr) = (a, b, c) # queries_of tr"
  "queries_of (LoggedInfo m # tr) = queries_of tr"
  "queries_of (LoggedError m # tr) = queries_of tr"
  "queries_of (MadeDirs d # tr) = queries_of tr"
  "queries_of (Plotted sc f # tr) = queries_of tr"
  by (simp_all add: queries_of_def)

lemma error_logs_of_simps [simp]:
  "error_logs_of [] = []"
  "error_logs_of (tr @ tr') = error_logs_of tr @ error_logs_of tr'"
  "error_logs_of (Queried a b c # tr) = error_logs_of tr"
  "error_logs_of (LoggedInfo m # tr) = error_logs_of tr"
  "error_logs_of (LoggedError m # tr) = m # error_logs_of tr"
  "error_logs_of (MadeDirs d # tr) = error_logs_of tr"
  "error_logs_of (Plotted sc f # tr) = error_logs_of tr"
  by (simp_all add: error_logs_of_def)

lemma plot_roc_curves_trace:
  "plot_roc_curves env s1 s2 s3 fo tr = (res, tr') \<Longrightarrow>
     queries_of tr' = queries_of tr \<and> error_logs_of tr' = error_logs_of tr"
  by (auto simp: plot_roc_curves_def return_io_def bind_io_def make_dirs_def plot_def
      split: option.splits if_splits sum.splits prod.splits)

lemma body_trace:
  assumes "psds_score_body env fo [] = (res, tr)"
  shows "(\<exists>rest. queries_of tr @ rest = [(0, 0, 100), (1, 0, 100), (0, 1, 100)])
       \<and> (first_failure env = None \<longrightarrow> queries_of tr = [(0, 0, 100), (1, 0, 100), (0, 1, 100)])
       \<and> (\<forall>e. first_failure env = Some e \<longrightarrow> res = Inl e)
       \<and> error_logs_of tr = []"
  using assms unfolding psds_score_body_def
  by (auto simp: bind_io_def query_def log_info_def first_failure_def
      split: sum.splits prod.splits dest!: plot_roc_curves_trace)

lemma handler:
  "psds_score env fo tr0 =
     (case psds_score_body env fo tr0 of (res, tr) \<Rightarrow>
        (case res of
           Inl e \<Rightarrow> (case e of PSDSEvalError m \<Rightarrow>
                        (Inr (), tr @ [LoggedError ''psds score did not work ....'', LoggedError m])
                     | _ \<Rightarrow> (res, tr))
         | Inr u \<Rightarrow> (res, tr)))"
  by (simp add: psds_score_def bind_io_def log_error_def split: prod.splits sum.splits exn.splits)

text \<open>
  C6. \<^verbatim>\<open>psds_score\<close> asks the evaluator for the scores at \<open>(alpha_ct, alpha_st, max_efpr)\<close> =
  \<open>(0, 0, 100)\<close>, \<open>(1, 0, 100)\<close> and \<open>(0, 1, 100)\<close>, in this order and nothing else: the queries
  of a run are an initial part of this list, and the whole list when none of them raises.
  When the first query that raises does so with the evaluator's own error, the function
  returns normally and has logged the two error lines; that error never leaves the function.
\<close>

theorem psds_score_three_queries:
  "(case psds_score env filename_roc_curves [] of (res, tr) \<Rightarrow>
      (\<exists>rest. queries_of tr @ rest = [(0, 0, 100), (1, 0, 100), (0, 1, 100)])
    \<and> (first_failure env = None \<longrightarrow> queries_of tr = [(0, 0, 100), (1, 0, 100), (0, 1, 100)])
    \<and> (\<forall>msg. first_failure env = Some (PSDSEvalError msg) \<longrightarrow>
          res = Inr () \<and> error_logs_of tr = [''psds score did not work ....'', msg])
    \<and> (\<forall>msg. res \<noteq> Inl (PSDSEvalError msg)))"
proof -
  obtain r t where b: "psds_score_body env filename_roc_curves [] = (r, t)"
    by (cases "psds_score_body env filename_roc_curves []")
  note bt = body_trace[OF b]
  show ?thesis
  proof (cases r)
    case (Inr u)
    then show ?thesis using bt b by (auto simp: handler)
  next
    case (Inl e)
    then show ?thesis using bt b by (cases e) (auto simp: handler)
  qed
qed

theorem psds_score_three_queries_witness:
  "first_failure example_psds_env = Some (PSDSEvalError ''no operating point'')
   \<and> psds_score example_psds_env None []
       = (Inr (), [Queried 0 0 100, LoggedInfo (CHR 0x0A # ''PSD-Score (0, 0, 100): 1.00000''),
                   Queried 1 0 100, LoggedError ''psds score did not work ....'',
                   LoggedError ''no operating point''])
   \<and> error_logs_of (snd (psds_score example_psds_env None []))
       = [''psds score did not work ....'', ''no operating point'']"
  using psds_score_three_queries [of example_psds_env None]
  by (simp add: first_failure_def example_psds_env_def psds_score_def psds_score_body_def
        bind_io_def query_def log_info_def log_error_def)

subsection \<open>Precision and recall without a guard\<close>

lemma np_fadd_NaN [simp]: "np_fadd NaN x = NaN" "np_fadd x NaN = NaN"
  by (cases x; simp)+

lemma true_divide_zero: "true_divide 0 0 = NaN"
  by (simp add: true_divide_def round_f64_def)

lemma foldl_np_fadd_NaN: "foldl np_fadd NaN xs = NaN"
  by (induction xs) simp_all

lemma foldl_np_fadd_has_NaN: "NaN \<in> set xs \<Longrightarrow> foldl np_fadd a xs = NaN"
  by (induction xs arbitrary: a) (auto simp: foldl_np_fadd_NaN)

lemma np_mean_NaN: "NaN \<in> set xs \<Longrightarrow> np_mean xs = NaN"
  by (simp add: np_mean_def np_fdiv_nat_def foldl_np_fadd_has_NaN)

lemma sum_axis0_nonneg: "j < ncols a \<Longrightarrow> 0 \<le> sum_axis0 a ! j"
  by (auto simp: sum_axis0_def intro!: sum_list_nonneg)

lemma prepare_encoder:
  "audio_tagging_prepare reference estimated = Inr (classes, mhe, reference', estimated')
    \<Longrightarrow> labels mhe = classes"
  by (auto simp: audio_tagging_prepare_def ManyHotEncoder_def bind_exn_def Let_def
      split: if_splits sum.splits)

lemma measures_lengths:
  assumes "intermediate_at_measures encoded_ref encoded_est = (tp, fp, fn, tn)"
  shows "length tp = ncols encoded_est" "length fp = ncols encoded_est"
    "length fn = ncols encoded_ref" "length tn = ncols encoded_est"
    "\<And>j. j < ncols encoded_est \<Longrightarrow> 0 \<le> tp ! j \<and> 0 \<le> fp ! j"
    "\<And>j. j < ncols encoded_ref \<Longrightarrow> 0 \<le> fn ! j"
  using assms
  by (auto simp: intermediate_at_measures_def Let_def sum_axis0_length ncols_ops
      intro!: sum_axis0_nonneg)

lemma results_serie_rows:
  assumes "length idx = n" "length f = n" "length p = n" "length r = n"
  shows "length (results_serie idx f p r) = n + 1"
    "last (results_serie idx f p r) = (Str ''avg'', np_mean f, np_mean p, np_mean r)"
    "\<And>c. c < n \<Longrightarrow> results_serie idx f p r ! c = (idx ! c, f ! c, p ! c, r ! c)"
  using assms by (simp_all add: results_serie_def nth_append)

text \<open>
  C9. In \<^verbatim>\<open>audio_tagging_results\<close>, with estimates that are not empty, the precision
  \<open>tp / (tp + fp)\<close> and the recall \<open>tp / (tp + fn)\<close> of a class are computed without a guard:
  for a class with \<open>tp + fp = 0\<close> the precision in the table is NaN, and so is the precision of
  the row \<open>avg\<close>; for a class with \<open>tp + fn = 0\<close> the same holds of the recall. The F-measure
  of a class with \<open>2 tp + fp + fn = 0\<close> is 0. The tables of the example show all of it at
  the class \<open>fox\<close>.
\<close>

theorem precision_recall_unguarded:
  assumes "audio_tagging_prepare reference estimated = Inr (classes, mhe, reference', estimated')"
    and "merge_outer reference' estimated' ''filename'' ''_ref'' ''_pred'' = Inr matching"
    and "\<not> df_empty estimated'"
    and "encoded_arrays classes matching = Inr (encoded_ref, encoded_est)"
    and "ncols encoded_ref = length classes"
    and "intermediate_at_measures encoded_ref encoded_est = (tp, fp, fn, tn)"
    and "c < length classes"
  shows "\<exists>table. audio_tagging_results reference estimated = Inr table
     \<and> length table = length classes + 1
     \<and> fst (last table) = Str ''avg''
     \<and> (tp ! c + fp ! c = 0 \<longrightarrow> score_p (table ! c) = NaN \<and> score_p (last table) = NaN)
     \<and> (tp ! c + fn ! c = 0 \<longrightarrow> score_r (table ! c) = NaN \<and> score_r (last table) = NaN)
     \<and> (2 * tp ! c + fp ! c + fn ! c = 0 \<longrightarrow> score_f (table ! c) = Finite 0)"
proof -
  define n where "n = length classes"
  have ce: "ncols encoded_est = n"
    using assms(4,5) by (auto simp: encoded_arrays_def bind_exn_def n_def split: sum.splits if_splits)
  note ml = measures_lengths[OF assms(6)]
  have len: "length tp = n" "length fp = n" "length fn = n"
    using ml(1,2,3) ce assms(5) by (simp_all add: n_def)
  have cn: "c < n" using assms(7) by (simp add: n_def)
  have nonneg: "0 \<le> tp ! c" "0 \<le> fp ! c" "0 \<le> fn ! c"
    using ml(5)[of c] ml(6)[of c] ce assms(5) cn by (simp_all add: n_def)
  define macro_f where "macro_f = macro_f_measure tp fp fn"
  define macro_p where "macro_p = map2 true_divide tp (map2 add64 tp fp)"
  define macro_r where "macro_r = map2 true_divide tp (map2 add64 tp fn)"
  have cs: "class_scores encoded_ref encoded_est = (macro_f, macro_p, macro_r)"
    by (simp add: class_scores_def assms(6) macro_f_def macro_p_def macro_r_def)
  have lf: "length macro_f = n" "length macro_p = n" "length macro_r = n"
    using len by (simp_all add: macro_f_def macro_p_def macro_r_def macro_f_measure_map)
  define table where "table = results_serie classes macro_f macro_p macro_r"
  have res: "audio_tagging_results reference estimated = Inr table"
    using assms(1,2,3,4) cs lf(1) prepare_encoder[OF assms(1)]
    by (simp add: audio_tagging_results_def table_def n_def)
  have rows: "length table = n + 1"
    "last table = (Str ''avg'', np_mean macro_f, np_mean macro_p, np_mean macro_r)"
    "table ! c = (classes ! c, macro_f ! c, macro_p ! c, macro_r ! c)"
    unfolding table_def
    using results_serie_rows[of classes n macro_f macro_p macro_r] lf cn by (simp_all add: n_def)
  have pc: "macro_p ! c = true_divide (tp ! c) (add64 (tp ! c) (fp ! c))"
    and rc: "macro_r ! c = true_divide (tp ! c) (add64 (tp ! c) (fn ! c))"
    using len cn by (simp_all add: macro_p_def macro_r_def)
  have fc: "macro_f ! c = (if wrap64 (2 * tp ! c + fp ! c + fn ! c) \<noteq> 0
            then true_divide (wrap64 (2 * tp ! c)) (wrap64 (2 * tp ! c + fp ! c + fn ! c))
            else Finite 0)"
    using len cn by (simp add: macro_f_def macro_f_measure_map)
  have p: "macro_p ! c = NaN \<and> np_mean macro_p = NaN" if "tp ! c + fp ! c = 0"
  proof -
    from that nonneg have "tp ! c = 0" by linarith
    with that have "macro_p ! c = NaN" by (simp add: pc true_divide_zero add64_def)
    moreover have "macro_p ! c \<in> set macro_p" using lf cn by simp
    ultimately show ?thesis by (metis np_mean_NaN)
  qed
  have r: "macro_r ! c = NaN \<and> np_mean macro_r = NaN" if "tp ! c + fn ! c = 0"
  proof -
    from that nonneg have "tp ! c = 0" by linarith
    with that have "macro_r ! c = NaN" by (simp add: rc true_divide_zero add64_def)
    moreover have "macro_r ! c \<in> set macro_r" using lf cn by simp
    ultimately show ?thesis by (metis np_mean_NaN)
  qed
  show ?thesis
    using res rows p r fc
    by (intro exI[of _ table]) (simp add: score_p_def score_r_def score_f_def n_def)
qed

lemma tagging_prepare:
  "case audio_tagging_prepare tagging_ref tagging_est of
     Inl e \<Rightarrow> False
   | Inr (classes, mhe, reference', estimated') \<Rightarrow>
       classes = [Str ''bird'', Str ''dog'', Str ''fox'', Str ''cat'']
     \<and> reference' = \<lparr>columns = [''filename'', ''event_label''],
                      rows = [[Str ''a.wav'', Vec [0, 1, 0, 0]], [Str ''d.wav'', Vec [1, 0, 0, 0]]]\<rparr>
     \<and> estimated' = \<lparr>columns = [''filename'', ''event_label''],
                      rows = [[Str ''a.wav'', Vec [0, 0, 0, 1]]]\<rparr>"
  by code_simp

lemma tagging_merge:
  "merge_outer \<lparr>columns = [''filename'', ''event_label''],
                      rows = [[Str ''a.wav'', Vec [0, 1, 0, 0]], [Str ''d.wav'', Vec [1, 0, 0, 0]]]\<rparr>
      \<lparr>columns = [''filename'', ''event_label''], rows = [[Str ''a.wav'', Vec [0, 0, 0, 1]]]\<rparr>
      ''filename'' ''_ref'' ''_pred''
   = Inr \<lparr>columns = [''filename'', ''event_label_ref'', ''event_label_pred''],
          rows = [[Str ''a.wav'', Vec [0, 1, 0, 0], Vec [0, 0, 0, 1]],
                  [Str ''d.wav'', Vec [1, 0, 0, 0], NA]]\<rparr>"
  by code_simp

lemma tagging_arrays:
  "encoded_arrays [Str ''bird'', Str ''dog'', Str ''fox'', Str ''cat'']
     \<lparr>columns = [''filename'', ''event_label_ref'', ''event_label_pred''],
          rows = [[Str ''a.wav'', Vec [0, 1, 0, 0], Vec [0, 0, 0, 1]],
                  [Str ''d.wav'', Vec [1, 0, 0, 0], NA]]\<rparr>
   = Inr (Array2 4 [[0, 1, 0, 0], [1, 0, 0, 0]], Array2 4 [[0, 0, 0, 1], [0, 0, 0, 0]])"
  by code_simp

lemma tagging_measures:
  "intermediate_at_measures (Array2 4 [[0, 1, 0, 0], [1, 0, 0, 0]]) (Array2 4 [[0, 0, 0, 1], [0, 0, 0, 0]])
   = ([0, 0, 0, 0], [0, 0, 0, 1], [1, 1, 0, 0], [1, 1, 2, 1])"
  by code_simp

lemma tagging_results:
  "audio_tagging_results tagging_ref tagging_est
   = Inr [(Str ''bird'', Finite 0, NaN, Finite 0), (Str ''dog'', Finite 0, NaN, Finite 0),
          (Str ''fox'', Finite 0, NaN, NaN), (Str ''cat'', Finite 0, Finite 0, NaN),
          (Str ''avg'', Finite 0, NaN, NaN)]"
  by code_simp

theorem precision_recall_unguarded_witness:
  "audio_tagging_results tagging_ref tagging_est
     = Inr [(Str ''bird'', Finite 0, NaN, Finite 0), (Str ''dog'', Finite 0, NaN, Finite 0),
            (Str ''fox'', Finite 0, NaN, NaN), (Str ''cat'', Finite 0, Finite 0, NaN),
            (Str ''avg'', Finite 0, NaN, NaN)]
   \<and> (\<exists>table. audio_tagging_results tagging_ref tagging_est = Inr table
        \<and> score_p (table ! 2) = NaN \<and> score_r (table ! 2) = NaN \<and> score_f (table ! 2) = Finite 0
        \<and> fst (last table) = Str ''avg'' \<and> score_p (last table) = NaN \<and> score_r (last table) = NaN)"
proof -
  obtain classes mhe reference' estimated' where
    p: "audio_tagging_prepare tagging_ref tagging_est = Inr (classes, mhe, reference', estimated')"
    and c: "classes = [Str ''bird'', Str ''dog'', Str ''fox'', Str ''cat'']"
    and r: "reference' = \<lparr>columns = [''filename'', ''event_label''],
                      rows = [[Str ''a.wav'', Vec [0, 1, 0, 0]], [Str ''d.wav'', Vec [1, 0, 0, 0]]]\<rparr>"
    and e: "estimated' = \<lparr>columns = [''filename'', ''event_label''],
                      rows = [[Str ''a.wav'', Vec [0, 0, 0, 1]]]\<rparr>"
    using tagging_prepare by (auto split: sum.splits)
  have m: "merge_outer reference' estimated' ''filename'' ''_ref'' ''_pred''
      = Inr \<lparr>columns = [''filename'', ''event_label_ref'', ''event_label_pred''],
          rows = [[Str ''a.wav'', Vec [0, 1, 0, 0], Vec [0, 0, 0, 1]],
                  [Str ''d.wav'', Vec [1, 0, 0, 0], NA]]\<rparr>"
    unfolding r e by (rule tagging_merge)
  have ne: "\<not> df_empty estimated'" by (simp add: e df_empty_def)
  have a: "encoded_arrays classes \<lparr>columns = [''filename'', ''event_label_ref'', ''event_label_pred''],
          rows = [[Str ''a.wav'', Vec [0, 1, 0, 0], Vec [0, 0, 0, 1]],
                  [Str ''d.wav'', Vec [1, 0, 0, 0], NA]]\<rparr>
      = Inr (Array2 4 [[0, 1, 0, 0], [1, 0, 0, 0]], Array2 4 [[0, 0, 0, 1], [0, 0, 0, 0]])"
    unfolding c by (rule tagging_arrays)
  have n: "ncols (Array2 4 [[0, 1, 0, 0], [1, 0, 0, 0 :: int]]) = length classes" by (simp add: c)
  have k: "2 < length classes" by (simp add: c)
  from precision_recall_unguarded[OF p m ne a n tagging_measures k]
  show ?thesis using tagging_results by simp
qed

subsection \<open>A file of the reference table only\<close>

lemma encode_many_hot:
  "encode_weak (ManyHotEncoder classes) present = Inr (Vec (many_hot classes present))"
  by (simp add: ManyHotEncoder_def)

lemma map_exn_all:
  "(\<And>x. x \<in> set xs \<Longrightarrow> f x = Inr (g x)) \<Longrightarrow> map_exn f xs = Inr (map g xs)"
  by (induction xs) simp_all

lemma set_sorted_keys [simp]: "set (sorted_keys ks) = set ks"
  by (simp add: sorted_keys_def)

lemma distinct_sorted_keys [simp]: "distinct (sorted_keys ks)"
  by (simp add: sorted_keys_def unique_def)

lemma group_keys_set: "set (group_keys df) = {k \<in> set (filename_column df). k \<noteq> NA}"
  by (auto simp: group_keys_def dropna_def)

lemma join_labels_group:
  assumes "''filename'' \<in> set (columns df)" "''event_label'' \<in> set (columns df)"
    and "k \<in> set (filename_column df)"
  shows "join_labels (ManyHotEncoder classes)
           (select_rows df (map (\<lambda>c. c = k) (filename_column df)))
         = Inr [k, Vec (many_hot classes (file_labels df k))]"
proof -
  define rs where "rs = filter (\<lambda>r. cell_of (columns df) r ''filename'' = k) (rows df)"
  have sel: "select_rows df (map (\<lambda>c. c = k) (filename_column df)) = df\<lparr>rows := rs\<rparr>"
    by (simp add: select_rows_def filename_column_def rs_def np_compress_map comp_def)
  from assms(3) obtain r where "r \<in> set (rows df)" "cell_of (columns df) r ''filename'' = k"
    by (auto simp: filename_column_def)
  then have "r \<in> set rs" by (simp add: rs_def)
  then obtain r0 rest where rs0: "rs = r0 # rest" by (cases rs) auto
  then have "r0 \<in> set rs" by simp
  then have k0: "cell_of (columns df) r0 ''filename'' = k" by (simp add: rs_def)
  show ?thesis
    unfolding sel
    using assms(1,2) rs0 k0
    by (simp add: join_labels_def get_item_def encode_many_hot file_labels_def flip: rs_def)
qed

lemma format_df_strong:
  assumes "strong_table df"
  shows "format_df df (ManyHotEncoder classes) =
     Inr (if group_keys df = [] then df\<lparr>rows := []\<rparr>
          else \<lparr>columns = [''filename'', ''event_label''], rows = weak_rows classes df\<rparr>)"
proof -
  have c: "''filename'' \<in> set (columns df)" "''event_label'' \<in> set (columns df)"
    "''onset'' \<in> set (columns df) \<or> ''offset'' \<in> set (columns df)"
    using assms by (simp_all add: strong_table_def)
  have gi: "get_item df ''filename'' = Inr (filename_column df)"
    using c(1) by (simp add: get_item_def filename_column_def)
  have "map_exn (\<lambda>k. join_labels (ManyHotEncoder classes)
            (select_rows df (map (\<lambda>c. c = k) (filename_column df)))) (group_keys df)
      = Inr (weak_rows classes df)"
    unfolding weak_rows_def
    by (rule map_exn_all) (simp add: join_labels_group[OF c(1,2)] group_keys_set)
  then show ?thesis
    using c(3) by (simp add: format_df_def groupby_filename_apply_def gi Let_def flip: group_keys_def)
qed

lemma event_classes_strong:
  assumes "strong_table reference" "strong_table estimated"
  shows "\<exists>classes. event_classes reference estimated = Inr classes"
  using assms by (simp add: event_classes_def strong_table_def get_attr_def)

lemma prepare_strong:
  assumes "strong_table reference" "strong_table estimated"
    and "audio_tagging_prepare reference estimated = Inr (classes, mhe, reference', estimated')"
  shows "reference' = (if group_keys reference = [] then reference\<lparr>rows := []\<rparr>
          else \<lparr>columns = [''filename'', ''event_label''], rows = weak_rows classes reference\<rparr>)"
    and "estimated' = (if group_keys estimated = [] then estimated\<lparr>rows := []\<rparr>
          else \<lparr>columns = [''filename'', ''event_label''], rows = weak_rows classes estimated\<rparr>)"
proof -
  have el: "''event_label'' \<in> set (columns reference)"
    using assms(1) by (simp add: strong_table_def)
  obtain cl where cl: "event_classes reference estimated = Inr cl"
    using event_classes_strong[OF assms(1,2)] by blast
  from assms(3) have "classes = cl \<and> reference' = (if group_keys reference = [] then reference\<lparr>rows := []\<rparr>
          else \<lparr>columns = [''filename'', ''event_label''], rows = weak_rows cl reference\<rparr>)
      \<and> estimated' = (if group_keys estimated = [] then estimated\<lparr>rows := []\<rparr>
          else \<lparr>columns = [''filename'', ''event_label''], rows = weak_rows cl estimated\<rparr>)"
    unfolding audio_tagging_prepare_def
    by (simp add: el cl format_df_strong[OF assms(1)] format_df_strong[OF assms(2)] Let_def)
  then show "reference' = (if group_keys reference = [] then reference\<lparr>rows := []\<rparr>
          else \<lparr>columns = [''filename'', ''event_label''], rows = weak_rows classes reference\<rparr>)"
    and "estimated' = (if group_keys estimated = [] then estimated\<lparr>rows := []\<rparr>
          else \<lparr>columns = [''filename'', ''event_label''], rows = weak_rows classes estimated\<rparr>)"
    by simp_all
qed

lemma filter_eq_distinct:
  "distinct xs \<Longrightarrow> filter (\<lambda>x. x = k) xs = (if k \<in> set xs then [k] else [])"
  by (induction xs) auto

lemma weak_cells [simp]:
  "cell_of [''filename'', ''event_label''] [k, v] ''filename'' = k"
  "cell_of [''filename'', ''event_label''] [k, v] ''event_label'' = v"
  by (simp_all add: cell_of_def)

lemma weak_frame_rows_of_key:
  assumes "distinct ks"
  shows "filter (\<lambda>l. cell_of [''filename'', ''event_label''] l ''filename'' = k)
           (map (\<lambda>k. [k, Vec (vec k)]) ks)
         = (if k \<in> set ks then [[k, Vec (vec k)]] else [])"
proof -
  have "filter (\<lambda>l. cell_of [''filename'', ''event_label''] l ''filename'' = k)
           (map (\<lambda>k. [k, Vec (vec k)]) ks)
      = map (\<lambda>k. [k, Vec (vec k)]) (filter (\<lambda>x. x = k) ks)"
    by (simp add: filter_map comp_def)
  then show ?thesis
    by (simp add: filter_eq_distinct[OF assms])
qed

lemma concat_singletons:
  "(\<And>x. x \<in> set xs \<Longrightarrow> f x = [g x]) \<Longrightarrow> concat (map f xs) = map g xs"
  by (induction xs) simp_all

lemma merge_weak_frames:
  assumes "distinct lk" "distinct rk"
  shows "merge_outer (weak_frame lk vl) (weak_frame rk vr) ''filename'' ''_ref'' ''_pred''
     = Inr \<lparr>columns = [''filename'', ''event_label_ref'', ''event_label_pred''],
            rows = map (joined_row lk vl rk vr) (sorted_keys (lk @ rk))\<rparr>"
proof -
  have gl: "get_item (weak_frame lk vl) ''filename'' = Inr lk"
    and gr: "get_item (weak_frame rk vr) ''filename'' = Inr rk"
    by (simp_all add: get_item_def weak_frame_def comp_def)
  show ?thesis
    unfolding merge_outer_def gl gr
    by (simp add: weak_frame_def Let_def weak_frame_rows_of_key[OF assms(1)]
          weak_frame_rows_of_key[OF assms(2)])
       (rule concat_singletons, auto simp: joined_row_def)
qed

lemma joined_cells:
  "cell_of [''filename'', ''event_label_ref'', ''event_label_pred''] (joined_row lk vl rk vr k)
     ''event_label_ref'' = (if k \<in> set lk then Vec (vl k) else NA)"
  "cell_of [''filename'', ''event_label_ref'', ''event_label_pred''] (joined_row lk vl rk vr k)
     ''event_label_pred'' = (if k \<in> set rk then Vec (vr k) else NA)"
  "cell_of [''filename'', ''event_label_ref'', ''event_label_pred''] (joined_row lk vl rk vr k)
     ''filename'' = k"
  by (simp_all add: cell_of_def joined_row_def)

lemma np_array_vectors:
  assumes "ks \<noteq> []" "\<And>k. length (v k) = n"
  shows "np_array (map (\<lambda>k. Vec (v k)) ks) = Inr (Array2 n (map v ks))"
proof -
  obtain k0 rest where ks: "ks = k0 # rest" using assms(1) by (cases ks) auto
  show ?thesis
    unfolding ks by (simp add: np_array_def assms(2) list_all_iff comp_def)
qed

lemma encoded_arrays_joined:
  assumes "keys \<noteq> []" "\<And>k. length (vl k) = length classes" "\<And>k. length (vr k) = length classes"
  shows "encoded_arrays classes
           \<lparr>columns = [''filename'', ''event_label_ref'', ''event_label_pred''],
            rows = map (joined_row lk vl rk vr) keys\<rparr>
         = Inr (Array2 (length classes) (map (side_vector (length classes) lk vl) keys),
                Array2 (length classes) (map (side_vector (length classes) rk vr) keys))"
proof -
  have na: "na_values classes (if k \<in> set ks then Vec (v k) else NA)
        = Vec (side_vector (length classes) ks v k)" for k ks v
    by (simp add: side_vector_def)
  have len: "length (side_vector (length classes) lk vl k) = length classes"
    "length (side_vector (length classes) rk vr k) = length classes" for k
    by (simp_all add: side_vector_def assms(2,3))
  show ?thesis
    by (simp add: encoded_arrays_def get_attr_def joined_cells comp_def na
          np_array_vectors[OF assms(1), of _ "length classes"] len)
qed

lemma sum_axis0_append:
  "sum_axis0 (Array2 n (xs @ ys)) = map2 (+) (sum_axis0 (Array2 n xs)) (sum_axis0 (Array2 n ys))"
  by (simp add: sum_axis0_def list_eq_iff_nth_eq)

lemma np_eq_add_append:
  assumes "length xs = length xs'"
  shows "np_eq_scalar (np_add (Array2 n (xs @ ys)) (Array2 n (xs' @ ys'))) k
       = Array2 n (arows (np_eq_scalar (np_add (Array2 n xs) (Array2 n xs')) k)
                 @ arows (np_eq_scalar (np_add (Array2 n ys) (Array2 n ys')) k))"
    and "np_eq_scalar (np_sub (Array2 n (xs @ ys)) (Array2 n (xs' @ ys'))) k
       = Array2 n (arows (np_eq_scalar (np_sub (Array2 n xs) (Array2 n xs')) k)
                 @ arows (np_eq_scalar (np_sub (Array2 n ys) (Array2 n ys')) k))"
  using assms by (simp_all add: np_eq_scalar_def np_add_def np_sub_def)

lemma array_collapse: "ncols a = n \<Longrightarrow> Array2 n (arows a) = a"
  by (cases a) simp

lemma measures_append:
  assumes "length xs = length xs'"
  shows "intermediate_at_measures (Array2 n (xs @ ys)) (Array2 n (xs' @ ys'))
       = measures_add (intermediate_at_measures (Array2 n xs) (Array2 n xs'))
                      (intermediate_at_measures (Array2 n ys) (Array2 n ys'))"
  using assms
  by (simp add: intermediate_at_measures_def measures_add_def Let_def np_eq_add_append
        sum_axis0_append array_collapse ncols_ops)

lemma measures_single_zero_estimate:
  assumes "length v = n" "list_all (\<lambda>x. x = 0 \<or> x = 1) v"
  shows "intermediate_at_measures (Array2 n [v]) (Array2 n [replicate n 0])
       = (replicate n 0, replicate n 0, v, map (\<lambda>x. 1 - x) v)"
proof -
  have b: "v ! j = 0 \<or> v ! j = 1" if "j < n" for j
    using assms that by (auto simp: list_all_length)
  show ?thesis
    using assms(1) b
    by (auto simp: intermediate_at_measures_def Let_def sum_axis0_def np_eq_scalar_def
          np_add_def np_sub_def list_eq_iff_nth_eq; fastforce)
qed

lemma weak_rows_frame:
  "\<lparr>columns = [''filename'', ''event_label''], rows = weak_rows classes df\<rparr>
     = weak_frame (group_keys df) (\<lambda>k. many_hot classes (file_labels df k))"
  by (simp add: weak_frame_def weak_rows_def)

lemma many_hot_length [simp]: "length (many_hot classes present) = length classes"
  by (simp add: many_hot_def)

lemma many_hot_binary: "list_all (\<lambda>x. x = 0 \<or> x = 1) (many_hot classes present)"
  by (auto simp: many_hot_def list_all_iff)

lemma measures_length4:
  "intermediate_at_measures (Array2 n xs) (Array2 n ys) = (tp, fp, fn, tn) \<Longrightarrow>
     length tp = n \<and> length fp = n \<and> length fn = n \<and> length tn = n"
  by (auto simp: intermediate_at_measures_def Let_def sum_axis0_length ncols_ops)

lemma measures_insert_row:
  assumes "length pre = length pre'" "length v = n" "list_all (\<lambda>x. x = 0 \<or> x = 1) v"
  shows "case intermediate_at_measures (Array2 n (pre @ [v] @ post))
                (Array2 n (pre' @ [replicate n 0] @ post')) of
           (tp, fp, fn, tn) \<Rightarrow>
         case intermediate_at_measures (Array2 n (pre @ post)) (Array2 n (pre' @ post')) of
           (tp0, fp0, fn0, tn0) \<Rightarrow>
             tp = tp0 \<and> fp = fp0 \<and> fn = map2 (+) fn0 v"
proof -
  obtain tp1 fp1 fn1 tn1 where a: "intermediate_at_measures (Array2 n pre) (Array2 n pre') = (tp1, fp1, fn1, tn1)"
    by (cases "intermediate_at_measures (Array2 n pre) (Array2 n pre')") auto
  obtain tp2 fp2 fn2 tn2 where b: "intermediate_at_measures (Array2 n post) (Array2 n post') = (tp2, fp2, fn2, tn2)"
    by (cases "intermediate_at_measures (Array2 n post) (Array2 n post')") auto
  note la = measures_length4[OF a] and lb = measures_length4[OF b]
  have one: "length [v] = length [replicate n (0::int)]" by simp
  have whole: "intermediate_at_measures (Array2 n (pre @ [v] @ post))
                (Array2 n (pre' @ [replicate n 0] @ post'))
      = measures_add (tp1, fp1, fn1, tn1)
          (measures_add (replicate n 0, replicate n 0, v, map (\<lambda>x. 1 - x) v) (tp2, fp2, fn2, tn2))"
    by (simp only: measures_append[OF assms(1)] measures_append[OF one] a b
          measures_single_zero_estimate[OF assms(2,3)])
  have rest: "intermediate_at_measures (Array2 n (pre @ post)) (Array2 n (pre' @ post'))
      = measures_add (tp1, fp1, fn1, tn1) (tp2, fp2, fn2, tn2)"
    by (simp only: measures_append[OF assms(1)] a b)
  show ?thesis
    unfolding whole rest
    using la lb assms(2)
    by (simp add: measures_add_def list_eq_iff_nth_eq)
qed

text \<open>
  On two strongly labelled tables, with estimates that are not empty, the function does what
  is said of the outer join: a filename of the reference table that the estimated table does
  not have gets one row in the join, with the estimate missing; \<^verbatim>\<open>na_values\<close> replaces
  the missing estimate by the vector of zeros. Compared with the counts without this row,
  the row leaves \<open>fp\<close> and \<open>tp\<close> as they are and adds one to \<open>fn\<close> for every class among the
  reference labels of the file, and the table returned is computed from these counts.
\<close>

lemma reference_only_file_counts:
  assumes "strong_table reference" "strong_table estimated"
    and "f \<noteq> NA" "f \<in> set (filename_column reference)" "f \<notin> set (filename_column estimated)"
    and "audio_tagging_prepare reference estimated = Inr (classes, mhe, reference', estimated')"
    and "\<not> df_empty estimated'"
  shows "\<exists>matching pre post pre' post' tp fp fn tn tp0 fp0 fn0 tn0.
      merge_outer reference' estimated' ''filename'' ''_ref'' ''_pred'' = Inr matching
    \<and> file_rows matching f = [[f, Vec (many_hot classes (file_labels reference f)), NA]]
    \<and> na_values classes NA = Vec (replicate (length classes) 0)
    \<and> encoded_arrays classes matching
        = Inr (Array2 (length classes) (pre @ [many_hot classes (file_labels reference f)] @ post),
               Array2 (length classes) (pre' @ [replicate (length classes) 0] @ post'))
    \<and> length pre = length pre' \<and> length post = length post'
    \<and> intermediate_at_measures
          (Array2 (length classes) (pre @ [many_hot classes (file_labels reference f)] @ post))
          (Array2 (length classes) (pre' @ [replicate (length classes) 0] @ post'))
        = (tp, fp, fn, tn)
    \<and> intermediate_at_measures (Array2 (length classes) (pre @ post))
          (Array2 (length classes) (pre' @ post'))
        = (tp0, fp0, fn0, tn0)
    \<and> length tp = length classes \<and> length fp = length classes \<and> length fn = length classes
    \<and> tp = tp0 \<and> fp = fp0
    \<and> (\<forall>c < length classes.
          fn ! c = fn0 ! c + (if classes ! c \<in> set (file_labels reference f) then 1 else 0))
    \<and> audio_tagging_results reference estimated
        = Inr (results_serie classes (macro_f_measure tp fp fn)
                 (map2 true_divide tp (map2 add64 tp fp))
                 (map2 true_divide tp (map2 add64 tp fn)))"
proof -
  define n where "n = length classes"
  define lk where "lk = group_keys reference"
  define rk where "rk = group_keys estimated"
  define vl where "vl = (\<lambda>k. many_hot classes (file_labels reference k))"
  define vr where "vr = (\<lambda>k. many_hot classes (file_labels estimated k))"
  define keys where "keys = sorted_keys (lk @ rk)"
  have fl: "f \<in> set lk" and fr: "f \<notin> set rk"
    using assms(3,4,5) by (simp_all add: lk_def rk_def group_keys_set)
  then have lne: "group_keys reference \<noteq> []" by (auto simp: lk_def)
  have r': "reference' = weak_frame lk vl"
    using prepare_strong(1)[OF assms(1,2,6)] lne by (simp add: weak_rows_frame lk_def vl_def)
  have rne: "group_keys estimated \<noteq> []"
    using prepare_strong(2)[OF assms(1,2,6)] assms(7) by (auto simp: df_empty_def)
  have e': "estimated' = weak_frame rk vr"
    using prepare_strong(2)[OF assms(1,2,6)] rne by (simp add: weak_rows_frame rk_def vr_def)
  have d: "distinct lk" "distinct rk" "distinct keys"
    by (simp_all add: lk_def rk_def keys_def group_keys_def)
  define matching where "matching = \<lparr>columns = [''filename'', ''event_label_ref'', ''event_label_pred''],
            rows = map (joined_row lk vl rk vr) keys\<rparr>"
  have m: "merge_outer reference' estimated' ''filename'' ''_ref'' ''_pred'' = Inr matching"
    unfolding r' e' matching_def keys_def by (rule merge_weak_frames[OF d(1,2)])
  have fk: "f \<in> set keys" using fl by (simp add: keys_def)
  then obtain kp ks where sp: "keys = kp @ f # ks" by (meson split_list)
  have "file_rows matching f = map (joined_row lk vl rk vr) (filter (\<lambda>k. k = f) keys)"
    using assms(3)
    by (auto simp: file_rows_def matching_def filter_map comp_def joined_cells cell_eq_def
        intro!: arg_cong[where f="map (joined_row lk vl rk vr)"] filter_cong)
  then have fr_row: "file_rows matching f = [[f, Vec (vl f), NA]]"
    using fk fl fr by (simp add: filter_eq_distinct[OF d(3)] joined_row_def)
  define pre where "pre = map (side_vector n lk vl) kp"
  define post where "post = map (side_vector n lk vl) ks"
  define pre' where "pre' = map (side_vector n rk vr) kp"
  define post' where "post' = map (side_vector n rk vr) ks"
  have kne: "keys \<noteq> []" using sp by simp
  have ea0: "encoded_arrays classes matching
      = Inr (Array2 n (map (side_vector n lk vl) keys), Array2 n (map (side_vector n rk vr) keys))"
    unfolding matching_def n_def
    by (rule encoded_arrays_joined[OF kne]) (simp_all add: vl_def vr_def)
  have ea: "encoded_arrays classes matching
      = Inr (Array2 n (pre @ [vl f] @ post), Array2 n (pre' @ [replicate n 0] @ post'))"
    unfolding ea0 using fl fr
    by (simp add: sp pre_def post_def pre'_def post'_def side_vector_def)
  have len: "length pre = length pre'" "length post = length post'"
    by (simp_all add: pre_def pre'_def post_def post'_def)
  have vlen: "length (vl f) = n" and vbin: "list_all (\<lambda>x. x = 0 \<or> x = 1) (vl f)"
    by (simp_all add: vl_def n_def many_hot_binary)
  obtain tp fp fn tn where w: "intermediate_at_measures (Array2 n (pre @ [vl f] @ post))
      (Array2 n (pre' @ [replicate n 0] @ post')) = (tp, fp, fn, tn)"
    by (cases "intermediate_at_measures (Array2 n (pre @ [vl f] @ post))
      (Array2 n (pre' @ [replicate n 0] @ post'))") auto
  obtain tp0 fp0 fn0 tn0 where w0: "intermediate_at_measures (Array2 n (pre @ post))
      (Array2 n (pre' @ post')) = (tp0, fp0, fn0, tn0)"
    by (cases "intermediate_at_measures (Array2 n (pre @ post)) (Array2 n (pre' @ post'))") auto
  note lw = measures_length4[OF w] and lw0 = measures_length4[OF w0]
  from measures_insert_row[OF len(1) vlen vbin, of post post', unfolded w w0]
  have eq: "tp = tp0" "fp = fp0" "fn = map2 (+) fn0 (vl f)"
    by simp_all
  have fnc: "fn ! c = fn0 ! c + (if classes ! c \<in> set (file_labels reference f) then 1 else 0)"
    if "c < length classes" for c
    using that lw0 vlen by (simp add: eq(3) vl_def many_hot_def n_def)
  have lf: "length (macro_f_measure tp fp fn) = n"
    using lw by (simp add: macro_f_measure_map)
  have res: "audio_tagging_results reference estimated
        = Inr (results_serie classes (macro_f_measure tp fp fn)
                 (map2 true_divide tp (map2 add64 tp fp))
                 (map2 true_divide tp (map2 add64 tp fn)))"
    using assms(6,7) m ea w lf prepare_encoder[OF assms(6)]
    by (simp add: audio_tagging_results_def class_scores_def n_def)
  have na: "na_values classes NA = Vec (replicate (length classes) 0)" by simp
  have fnc': "\<forall>c < length classes.
      fn ! c = fn0 ! c + (if classes ! c \<in> set (file_labels reference f) then 1 else 0)"
    using fnc by blast
  have lens: "length tp = length classes" "length fp = length classes" "length fn = length classes"
    using lw by (simp_all add: n_def)
  note facts = m fr_row[unfolded vl_def] na ea[unfolded vl_def n_def] len w[unfolded vl_def n_def]
    w0[unfolded n_def] lens eq(1,2) fnc' res
  show ?thesis
    apply (rule exI[of _ matching], rule exI[of _ pre], rule exI[of _ post], rule exI[of _ pre'],
        rule exI[of _ post'], rule exI[of _ tp], rule exI[of _ fp], rule exI[of _ fn],
        rule exI[of _ tn], rule exI[of _ tp0], rule exI[of _ fp0], rule exI[of _ fn0],
        rule exI[of _ tn0])
    apply (intro conjI)
    apply (rule facts)+
    done
qed

lemma tagging_file_labels:
  "file_labels tagging_ref (Str ''d.wav'') = [Str ''bird'']"
  "many_hot [Str ''bird'', Str ''dog'', Str ''fox'', Str ''cat''] [Str ''bird''] = [1, 0, 0, 0]"
  by code_simp+

lemma tagging_tables:
  "strong_table tagging_ref \<and> strong_table tagging_est
   \<and> Str ''d.wav'' \<in> set (filename_column tagging_ref)
   \<and> Str ''d.wav'' \<notin> set (filename_column tagging_est)"
  by code_simp

lemma reference_only_file_counts_example:
  "\<exists>matching pre post pre' post' tp fp fn tn tp0 fp0 fn0 tn0.
      file_rows matching (Str ''d.wav'') = [[Str ''d.wav'', Vec [1, 0, 0, 0], NA]]
    \<and> encoded_arrays [Str ''bird'', Str ''dog'', Str ''fox'', Str ''cat''] matching
        = Inr (Array2 4 (pre @ [[1, 0, 0, 0]] @ post), Array2 4 (pre' @ [[0, 0, 0, 0]] @ post'))
    \<and> intermediate_at_measures (Array2 4 (pre @ [[1, 0, 0, 0]] @ post))
          (Array2 4 (pre' @ [[0, 0, 0, 0]] @ post')) = (tp, fp, fn, tn)
    \<and> intermediate_at_measures (Array2 4 (pre @ post)) (Array2 4 (pre' @ post'))
        = (tp0, fp0, fn0, tn0)
    \<and> tp = tp0 \<and> fp = fp0 \<and> fn ! 0 = fn0 ! 0 + 1 \<and> fn ! 1 = fn0 ! 1
    \<and> audio_tagging_results tagging_ref tagging_est
        = Inr (results_serie [Str ''bird'', Str ''dog'', Str ''fox'', Str ''cat'']
                 (macro_f_measure tp fp fn)
                 (map2 true_divide tp (map2 add64 tp fp))
                 (map2 true_divide tp (map2 add64 tp fn)))"
proof -
  obtain classes mhe reference' estimated' where
    p: "audio_tagging_prepare tagging_ref tagging_est = Inr (classes, mhe, reference', estimated')"
    and c: "classes = [Str ''bird'', Str ''dog'', Str ''fox'', Str ''cat'']"
    and e: "estimated' = \<lparr>columns = [''filename'', ''event_label''],
                      rows = [[Str ''a.wav'', Vec [0, 0, 0, 1]]]\<rparr>"
    using tagging_prepare by (auto split: sum.splits)
  have ne: "\<not> df_empty estimated'" by (simp add: e df_empty_def)
  have t: "strong_table tagging_ref" "strong_table tagging_est"
    "Str ''d.wav'' \<in> set (filename_column tagging_ref)"
    "Str ''d.wav'' \<notin> set (filename_column tagging_est)"
    using tagging_tables by simp_all
  have f: "Str ''d.wav'' \<noteq> NA" by simp
  have z: "replicate 4 (0 :: int) = [0, 0, 0, 0]" and lc: "length classes = 4"
    by (simp_all add: c eval_nat_numeral)
  from reference_only_file_counts[OF t(1,2) f t(3,4) p ne,
      unfolded tagging_file_labels(1), unfolded c tagging_file_labels(2), folded c,
      unfolded lc z]
  obtain matching pre post pre' post' tp fp fn tn tp0 fp0 fn0 tn0 where
    fr: "file_rows matching (Str ''d.wav'') = [[Str ''d.wav'', Vec [1, 0, 0, 0], NA]]"
    and ea: "encoded_arrays classes matching
        = Inr (Array2 4 (pre @ [[1, 0, 0, 0]] @ post), Array2 4 (pre' @ [[0, 0, 0, 0]] @ post'))"
    and w: "intermediate_at_measures (Array2 4 (pre @ [[1, 0, 0, 0]] @ post))
          (Array2 4 (pre' @ [[0, 0, 0, 0]] @ post')) = (tp, fp, fn, tn)"
    and w0: "intermediate_at_measures (Array2 4 (pre @ post)) (Array2 4 (pre' @ post'))
        = (tp0, fp0, fn0, tn0)"
    and eq: "tp = tp0" "fp = fp0"
    and fnc: "\<forall>c<4. fn ! c = fn0 ! c + (if classes ! c \<in> set [Str ''bird''] then 1 else 0)"
    and res: "audio_tagging_results tagging_ref tagging_est
        = Inr (results_serie classes (macro_f_measure tp fp fn)
                 (map2 true_divide tp (map2 add64 tp fp))
                 (map2 true_divide tp (map2 add64 tp fn)))"
    by (elim exE conjE) (rule that; assumption)
  from fnc have "fn ! 0 = fn0 ! 0 + 1" "fn ! 1 = fn0 ! 1"
    by (simp_all add: c)
  with fr ea w w0 eq res show ?thesis
    unfolding c by blast
qed

subsection \<open>Tables with the column \<open>event_labels\<close>\<close>

text \<open>
  The other branch of \<^verbatim>\<open>audio_tagging_results\<close>, for tables without the column
  \<open>event_label\<close>, builds the classes from the column \<open>event_labels\<close> and joins the tables, but
  the joined columns are then \<open>event_labels_ref\<close> and \<open>event_labels_pred\<close>: with estimates that
  are not empty the read of \<open>event_label_pred\<close> raises AttributeError, for all tables that have
  no column of this name themselves.
\<close>

lemma suffix_clash: "c @ ''_ref'' \<noteq> ''event_label_pred''"
proof
  assume "c @ ''_ref'' = ''event_label_pred''"
  then have "last (c @ ''_ref'') = last ''event_label_pred''" by simp
  then show False by simp
qed

lemma event_labels_branch_raises:
  assumes "''event_label'' \<notin> set (columns reference)"
    and "''event_labels'' \<in> set (columns reference)" "''event_labels'' \<in> set (columns estimated)"
    and "''filename'' \<in> set (columns reference)" "''filename'' \<in> set (columns estimated)"
    and "''event_label_pred'' \<notin> set (columns reference)"
      "''event_label_pred'' \<notin> set (columns estimated)"
    and "\<not> df_empty estimated"
  shows "audio_tagging_results reference estimated = Inl (AttributeError ''event_label_pred'')"
proof -
  obtain classes where
    p: "audio_tagging_prepare reference estimated
        = Inr (classes, ManyHotEncoder classes, reference, estimated)"
    using assms(1,2,3) by (simp add: audio_tagging_prepare_def get_attr_def Let_def)
  obtain matching where m: "merge_outer reference estimated ''filename'' ''_ref'' ''_pred'' = Inr matching"
    and c: "columns matching =
        map (\<lambda>c. if c \<noteq> ''filename'' \<and> c \<in> set (filter (\<lambda>c. c \<noteq> ''filename'') (columns estimated))
                 then c @ ''_ref'' else c) (columns reference)
        @ map (\<lambda>c. if c \<in> set (filter (\<lambda>c. c \<noteq> ''filename'') (columns reference))
                    then c @ ''_pred'' else c) (filter (\<lambda>c. c \<noteq> ''filename'') (columns estimated))"
    using assms(4,5) by (simp add: merge_outer_def get_item_def Let_def)
  have "''event_label_pred'' \<notin> set (columns matching)"
    unfolding c using assms(1,6,7) by (auto simp: suffix_clash)
  then have "encoded_arrays classes matching = Inl (AttributeError ''event_label_pred'')"
    by (simp add: encoded_arrays_def get_attr_def)
  then show ?thesis
    using p m assms(8) by (simp add: audio_tagging_results_def)
qed

text \<open>
  C5, at an input where the code departs from it. The tables of the example carry their
  labels in the column \<open>event_labels\<close>; the file \<open>d.wav\<close> is in the reference table only and
  the estimated table is not empty. \<^verbatim>\<open>audio_tagging_results\<close> does not replace the missing
  estimate of \<open>d.wav\<close> by zeros and count it in \<open>fn\<close>: it raises AttributeError for the column
  \<open>event_label_pred\<close>.
\<close>

theorem audio_tagging_results_event_labels_raises:
  "Str ''d.wav'' \<in> set (filename_column weak_reference)
   \<and> Str ''d.wav'' \<notin> set (filename_column weak_estimated)
   \<and> \<not> df_empty weak_estimated
   \<and> audio_tagging_results weak_reference weak_estimated = Inl (AttributeError ''event_label_pred'')"
  by code_simp

end
